theory Spec2Isabelle
  imports Complex_Main
begin

section \<open>Numbers, vectors and bodies\<close>

text \<open>
  The component \<^verbatim>\<open>ParticleSimulation\<close> of \<^verbatim>\<open>CircleCanvas.tsx\<close> computes with
  JavaScript numbers. They are modelled as the reals: rounding, infinities and NaN are
  outside this development, so every statement below is about the arithmetic the code
  writes down, read exactly.

  A \<^verbatim>\<open>CANNON.Vec3\<close> is a triple of numbers.
\<close>

datatype vec3 = Vec3 (vx: real) (vy: real) (vz: real)

definition vzero :: vec3 where
  "vzero = Vec3 0 0 0"

definition vadd :: "vec3 \<Rightarrow> vec3 \<Rightarrow> vec3" where
  "vadd a b = Vec3 (vx a + vx b) (vy a + vy b) (vz a + vz b)"

definition vneg :: "vec3 \<Rightarrow> vec3" where
  "vneg a = Vec3 (- vx a) (- vy a) (- vz a)"

definition vscale :: "real \<Rightarrow> vec3 \<Rightarrow> vec3" where
  "vscale k a = Vec3 (k * vx a) (k * vy a) (k * vz a)"

definition vnorm :: "vec3 \<Rightarrow> real" where
  "vnorm a = sqrt (vx a * vx a + vy a * vy a + vz a * vz a)"

text \<open>Distance in the plane and the unit vector from one point to another, as the
  claims speak of them.\<close>

definition distance2d :: "vec3 \<Rightarrow> vec3 \<Rightarrow> real" where
  "distance2d a b = sqrt ((vx b - vx a) * (vx b - vx a) + (vy b - vy a) * (vy b - vy a))"

definition direction2d :: "vec3 \<Rightarrow> vec3 \<Rightarrow> vec3" where
  "direction2d a b =
     Vec3 ((vx b - vx a) / distance2d a b) ((vy b - vy a) / distance2d a b) 0"

datatype shape = Sphere real | Box vec3

record material =
  mat_name :: string
  friction :: real
  restitution :: real

record contact_material =
  cm_first :: material
  cm_second :: material
  cm_friction :: real
  cm_restitution :: real

record body =
  mass :: real
  position :: vec3
  velocity :: vec3
  force :: vec3
  quaternion_z :: real
  shapes :: "shape list"
  body_material :: material
  linearDamping :: real
  angularDamping :: real

text \<open>
  Bodies are objects shared between \<^verbatim>\<open>world.bodies\<close> and \<^verbatim>\<open>bodiesRef.current\<close>:
  a body reference is an address, and the heap maps every address to the object's fields.
\<close>

type_synonym heap = "nat \<Rightarrow> body"

text \<open>
  \<^verbatim>\<open>new CANNON.Body({mass, material})\<close>: the body of the physics library as the
  component's code uses it, with the library's defaults for the fields the code does not
  set (no velocity, no force, identity rotation, damping 0.01).
\<close>

definition new_body :: "real \<Rightarrow> vec3 \<Rightarrow> shape list \<Rightarrow> material \<Rightarrow> body" where
  "new_body m pos shp mat =
     \<lparr> mass = m, position = pos, velocity = vzero, force = vzero, quaternion_z = 0,
       shapes = shp, body_material = mat, linearDamping = 0.01, angularDamping = 0.01 \<rparr>"

text \<open>
  \<^verbatim>\<open>body.applyForce(f, point)\<close> of the physics library adds \<open>f\<close> to the force
  accumulator of a dynamic body, as every particle is (the torque it adds as well is not
  modelled: no claim reads it).
\<close>

definition applyForce :: "vec3 \<Rightarrow> body \<Rightarrow> body" where
  "applyForce f b = b\<lparr>force := vadd (force b) f\<rparr>"

section \<open>The simulation parameters\<close>

record params =
  numParticles :: nat
  particleRadius :: real
  pushRadius :: real
  attractionRadius :: real
  attractionStrength :: real
  pushStrength :: real

definition default_params :: params where
  "default_params =
     \<lparr> numParticles = 1000, particleRadius = 7, pushRadius = 80, attractionRadius = 150,
       attractionStrength = 25000, pushStrength = 30000 \<rparr>"

section \<open>applyForces\<close>

text \<open>The body of the \<^verbatim>\<open>forEach\<close> callback: the force the pointer at \<open>(mx, my)\<close>
  puts on a body at \<open>pos\<close>, or \<open>None\<close> when the \<^verbatim>\<open>if\<close> is not taken and
  \<^verbatim>\<open>applyForce\<close> is not called.\<close>

definition pushForce :: "params \<Rightarrow> real \<times> real \<Rightarrow> vec3 \<Rightarrow> vec3 option" where
  "pushForce p m pos =
     (let dx = vx pos - fst m;
          dy = vy pos - snd m;
          distance = sqrt (dx * dx + dy * dy)
      in if distance < pushRadius p \<and> distance > 1 then
           (let forceScale = (pushRadius p - distance) / pushRadius p;
                forceX = (dx / distance) * forceScale * pushStrength p;
                forceY = (dy / distance) * forceScale * pushStrength p
            in Some (Vec3 forceX forceY 0))
         else None)"

definition push_body :: "params \<Rightarrow> real \<times> real \<Rightarrow> nat \<Rightarrow> heap \<Rightarrow> heap" where
  "push_body p m a h =
     (case pushForce p m (position (h a)) of
        None \<Rightarrow> h
      | Some f \<Rightarrow> h(a := applyForce f (h a)))"

fun push_all :: "params \<Rightarrow> real \<times> real \<Rightarrow> nat list \<Rightarrow> heap \<Rightarrow> heap" where
  "push_all p m [] h = h"
| "push_all p m (a # as) h = push_all p m as (push_body p m a h)"

text \<open>The body of the inner loop over pairs: the force on body A, or \<open>None\<close> when the
  loop \<^verbatim>\<open>continue\<close>s.\<close>

definition attractForce :: "params \<Rightarrow> vec3 \<Rightarrow> vec3 \<Rightarrow> vec3 option" where
  "attractForce p posA posB =
     (let dx = vx posB - vx posA;
          dy = vy posB - vy posA;
          distance = sqrt (dx * dx + dy * dy)
      in if distance < particleRadius p * 2 \<or> distance > attractionRadius p then None
         else
           (let forceMagnitude = attractionStrength p / (distance * distance);
                forceX = (dx / distance) * forceMagnitude;
                forceY = (dy / distance) * forceMagnitude
            in Some (Vec3 forceX forceY 0)))"

definition attract_pair :: "params \<Rightarrow> nat \<Rightarrow> nat \<Rightarrow> heap \<Rightarrow> heap" where
  "attract_pair p a b h =
     (case attractForce p (position (h a)) (position (h b)) of
        None \<Rightarrow> h
      | Some f \<Rightarrow>
          (let h1 = h(a := applyForce (Vec3 (vx f) (vy f) 0) (h a))
           in h1(b := applyForce (Vec3 (- vx f) (- vy f) 0) (h1 b))))"

text \<open>\<^verbatim>\<open>for (j = i + 1; j < bodies.length; j++)\<close>: body A against the bodies after it.\<close>

fun attract_inner :: "params \<Rightarrow> nat \<Rightarrow> nat list \<Rightarrow> heap \<Rightarrow> heap" where
  "attract_inner p a [] h = h"
| "attract_inner p a (b # bs) h = attract_inner p a bs (attract_pair p a b h)"

text \<open>\<^verbatim>\<open>for (i = 0; i < bodies.length; i++)\<close>.\<close>

fun attract_outer :: "params \<Rightarrow> nat list \<Rightarrow> heap \<Rightarrow> heap" where
  "attract_outer p [] h = h"
| "attract_outer p (a # as) h = attract_outer p as (attract_inner p a as h)"

definition applyForces :: "params \<Rightarrow> real \<times> real \<Rightarrow> nat list \<Rightarrow> heap \<Rightarrow> heap" where
  "applyForces p m bodies h = attract_outer p bodies (push_all p m bodies h)"

section \<open>The physics world\<close>

record world =
  gravity :: vec3
  bodies :: "nat list"
  contactmaterials :: "contact_material list"

text \<open>
  The operations of \<^verbatim>\<open>CANNON.World\<close> that the component calls, as the library
  documents them: \<^verbatim>\<open>addBody\<close> and \<^verbatim>\<open>addContactMaterial\<close> push onto the
  world's arrays (the component adds new bodies only, each once), \<^verbatim>\<open>removeBody\<close>
  splices the body out at its first index.
\<close>

definition addBody :: "nat \<Rightarrow> world \<Rightarrow> world" where
  "addBody a w = w\<lparr>bodies := bodies w @ [a]\<rparr>"

definition removeBody :: "nat \<Rightarrow> world \<Rightarrow> world" where
  "removeBody a w = w\<lparr>bodies := remove1 a (bodies w)\<rparr>"

definition addContactMaterial :: "contact_material \<Rightarrow> world \<Rightarrow> world" where
  "addContactMaterial c w = w\<lparr>contactmaterials := contactmaterials w @ [c]\<rparr>"

text \<open>
  \<^verbatim>\<open>world.step(dt)\<close> is the library's: it integrates the bodies of the world under
  the world's gravity and the forces accumulated on them, resolves the contacts, and ends
  by clearing every body's force accumulator. The integration and contact resolution are
  a parameter here (an \<open>engine\<close>); the clearing is written out.
\<close>

type_synonym engine = "vec3 \<Rightarrow> real \<Rightarrow> nat list \<Rightarrow> heap \<Rightarrow> heap"

fun clearForces :: "nat list \<Rightarrow> heap \<Rightarrow> heap" where
  "clearForces [] h = h"
| "clearForces (a # as) h = clearForces as (h(a := (h a)\<lparr>force := vzero\<rparr>))"

definition world_step :: "engine \<Rightarrow> real \<Rightarrow> world \<Rightarrow> heap \<Rightarrow> heap" where
  "world_step eng dt w h = clearForces (bodies w) (eng (gravity w) dt (bodies w) h)"

section \<open>The component\<close>

record mesh =
  mesh_position :: vec3
  rotation_z :: real

text \<open>
  The state of one mounted \<^verbatim>\<open>ParticleSimulation\<close>: the values held by
  \<^verbatim>\<open>useState\<close> (\<open>props\<close>), the refs, and the heap of body objects with its
  allocation counter. A ref to an object of the renderer (\<^verbatim>\<open>canvasRef\<close>,
  \<^verbatim>\<open>sceneRef\<close>, \<^verbatim>\<open>rendererRef\<close>, \<^verbatim>\<open>cameraRef\<close>) is modelled by whether
  it is set.
\<close>

record sim =
  props :: params
  canvasRef :: bool
  sceneRef :: bool
  rendererRef :: bool
  cameraRef :: bool
  worldRef :: "world option"
  body_heap :: heap
  next_body :: nat
  bodiesRef :: "nat list"
  particlesRef :: "mesh list"
  mousePositionRef :: "real \<times> real"
  prevTimeRef :: real

definition particleMaterial :: material where
  "particleMaterial = \<lparr> mat_name = ''particleMaterial'', friction = 0.05, restitution = 0.3 \<rparr>"

definition boundaryMaterial :: material where
  "boundaryMaterial = \<lparr> mat_name = ''boundaryMaterial'', friction = 0.0, restitution = 0.5 \<rparr>"

definition initial_sim :: sim where
  "initial_sim =
     \<lparr> props = default_params, canvasRef = True, sceneRef = False, rendererRef = False,
       cameraRef = False, worldRef = None,
       body_heap = (\<lambda>_. new_body 0 vzero [] particleMaterial), next_body = 0,
       bodiesRef = [], particlesRef = [], mousePositionRef = (0, 0), prevTimeRef = 0 \<rparr>"

subsection \<open>createParticles\<close>

record spawning =
  sp_world :: world
  sp_heap :: heap
  sp_next :: nat
  sp_particles :: "mesh list"
  sp_bodies :: "nat list"

text \<open>
  One round of the loop. \<open>rnd k\<close> is the result of the \<open>k\<close>-th call of
  \<^verbatim>\<open>Math.random\<close>; a round makes three calls (angle, distance, colour; the colour is
  not modelled).
\<close>

definition spawn_one ::
  "(nat \<Rightarrow> real) \<Rightarrow> real \<Rightarrow> real \<Rightarrow> real \<Rightarrow> nat \<Rightarrow> spawning \<Rightarrow> spawning" where
  "spawn_one rnd radius halfWidth halfHeight i st =
     (let angle = rnd (3 * i) * pi * 2;
          distance = rnd (3 * i + 1) * min halfWidth halfHeight * 0.8;
          x = cos angle * distance;
          y = sin angle * distance;
          mesh = \<lparr> mesh_position = Vec3 x y 0, rotation_z = 0 \<rparr>;
          body = (new_body 1 (Vec3 x y 0) [Sphere radius] particleMaterial)
                   \<lparr> linearDamping := 0.3, angularDamping := 0.5 \<rparr>;
          a = sp_next st
      in st\<lparr> sp_world := addBody a (sp_world st),
             sp_heap := (sp_heap st)(a := body),
             sp_next := Suc a,
             sp_particles := sp_particles st @ [mesh],
             sp_bodies := sp_bodies st @ [a] \<rparr>)"

text \<open>\<^verbatim>\<open>for (let i = 0; i < numParticles; i++)\<close>: \<open>n\<close> rounds are left, the next
  index is \<open>i\<close>.\<close>

fun spawn ::
  "(nat \<Rightarrow> real) \<Rightarrow> real \<Rightarrow> real \<Rightarrow> real \<Rightarrow> nat \<Rightarrow> nat \<Rightarrow> spawning \<Rightarrow> spawning" where
  "spawn rnd radius halfWidth halfHeight 0 i st = st"
| "spawn rnd radius halfWidth halfHeight (Suc n) i st =
     spawn rnd radius halfWidth halfHeight n (Suc i) (spawn_one rnd radius halfWidth halfHeight i st)"

text \<open>\<open>p\<close> holds the values of \<^verbatim>\<open>numParticles\<close> and \<^verbatim>\<open>particleRadius\<close> of the
  render whose closure runs.\<close>

definition createParticles :: "params \<Rightarrow> (nat \<Rightarrow> real) \<Rightarrow> real \<Rightarrow> real \<Rightarrow> sim \<Rightarrow> sim" where
  "createParticles p rnd innerWidth innerHeight s =
     (if \<not> sceneRef s then s
      else case worldRef s of
        None \<Rightarrow> s
      | Some world \<Rightarrow>
          (let contactMaterial =
                 \<lparr> cm_first = particleMaterial, cm_second = particleMaterial,
                   cm_friction = 0.01, cm_restitution = 0.3 \<rparr>;
               world1 = addContactMaterial contactMaterial world;
               halfWidth = innerWidth / 2;
               halfHeight = innerHeight / 2;
               st = spawn rnd (particleRadius p) halfWidth halfHeight (numParticles p) 0
                      \<lparr> sp_world = world1, sp_heap = body_heap s, sp_next = next_body s,
                        sp_particles = [], sp_bodies = [] \<rparr>
           in s\<lparr> worldRef := Some (sp_world st), body_heap := sp_heap st,
                 next_body := sp_next st, particlesRef := sp_particles st,
                 bodiesRef := sp_bodies st \<rparr>))"

subsection \<open>createBoundaries\<close>

record walls =
  wl_world :: world
  wl_heap :: heap
  wl_next :: nat

definition createWall :: "real \<Rightarrow> material \<Rightarrow> real \<Rightarrow> real \<Rightarrow> real \<Rightarrow> real \<Rightarrow> walls \<Rightarrow> walls" where
  "createWall boundaryThickness mat x y width height st =
     (let shp = Box (Vec3 (width / 2) (height / 2) (boundaryThickness / 2));
          body = new_body 0 (Vec3 x y 0) [shp] mat;
          a = wl_next st
      in st\<lparr> wl_world := addBody a (wl_world st),
             wl_heap := (wl_heap st)(a := body),
             wl_next := Suc a \<rparr>)"

definition createBoundaries :: "real \<Rightarrow> real \<Rightarrow> sim \<Rightarrow> sim" where
  "createBoundaries boxWidth boxHeight s =
     (case worldRef s of
        None \<Rightarrow> s
      | Some world \<Rightarrow>
          (let halfWidth = boxWidth / 2;
               halfHeight = boxHeight / 2;
               boundaryThickness = 50;
               world1 =
                 (if length (bodiesRef s) > 0 then
                    addContactMaterial
                      \<lparr> cm_first = body_material (body_heap s (bodiesRef s ! 0)),
                        cm_second = boundaryMaterial, cm_friction = 0.0, cm_restitution = 0.5 \<rparr>
                      world
                  else world);
               st0 = \<lparr> wl_world = world1, wl_heap = body_heap s, wl_next = next_body s \<rparr>;
               st1 = createWall boundaryThickness boundaryMaterial
                       0 (halfHeight + boundaryThickness / 2) boxWidth boundaryThickness st0;
               st2 = createWall boundaryThickness boundaryMaterial
                       0 (- halfHeight - boundaryThickness / 2) boxWidth boundaryThickness st1;
               st3 = createWall boundaryThickness boundaryMaterial
                       (- halfWidth - boundaryThickness / 2) 0 boundaryThickness boxHeight st2;
               st4 = createWall boundaryThickness boundaryMaterial
                       (halfWidth + boundaryThickness / 2) 0 boundaryThickness boxHeight st3
           in s\<lparr> worldRef := Some (wl_world st4), body_heap := wl_heap st4,
                 next_body := wl_next st4 \<rparr>))"

subsection \<open>handleResize\<close>

text \<open>\<^verbatim>\<open>for (let i = bodies.length - 1; i >= 0; i--)\<close> over the live array of the
  world: \<open>Suc i\<close> indices are left, the next one read is \<open>i\<close>.\<close>

fun remove_old :: "nat list \<Rightarrow> nat \<Rightarrow> world \<Rightarrow> world" where
  "remove_old particleBodies 0 w = w"
| "remove_old particleBodies (Suc i) w =
     (let body = bodies w ! i
      in if body \<notin> set particleBodies
         then remove_old particleBodies i (removeBody body w)
         else remove_old particleBodies i w)"

text \<open>The camera and the renderer are resized too; only the physics is modelled.\<close>

definition handleResize :: "real \<Rightarrow> real \<Rightarrow> sim \<Rightarrow> sim" where
  "handleResize innerWidth innerHeight s =
     (if \<not> cameraRef s \<or> \<not> rendererRef s then s
      else case worldRef s of
        None \<Rightarrow> s
      | Some world \<Rightarrow>
          createBoundaries innerWidth innerHeight
            (s\<lparr> worldRef := Some (remove_old (bodiesRef s) (length (bodies world)) world) \<rparr>))"

subsection \<open>The effect, the pointer and the sliders\<close>

text \<open>The effect of \<^verbatim>\<open>useEffect(..., [])\<close>: it runs once, after the first render, with
  that render's state values.\<close>

definition mount :: "(nat \<Rightarrow> real) \<Rightarrow> real \<Rightarrow> real \<Rightarrow> sim \<Rightarrow> sim" where
  "mount rnd innerWidth innerHeight s =
     (if \<not> canvasRef s then s
      else
        (let world = \<lparr> gravity = Vec3 0 (- 1000) 0, bodies = [], contactmaterials = [] \<rparr>;
             s1 = s\<lparr> worldRef := Some world, sceneRef := True, rendererRef := True,
                      cameraRef := True \<rparr>;
             s2 = createParticles (props s) rnd innerWidth innerHeight s1
         in createBoundaries innerWidth innerHeight s2))"

definition handleMouseMove :: "real \<Rightarrow> real \<Rightarrow> real \<Rightarrow> real \<Rightarrow> real \<Rightarrow> real \<Rightarrow> sim \<Rightarrow> sim" where
  "handleMouseMove clientX clientY rectLeft rectTop innerWidth innerHeight s =
     (if \<not> canvasRef s then s
      else
        (let x = clientX - rectLeft - innerWidth / 2;
             y = - (clientY - rectTop) + innerHeight / 2
         in s\<lparr> mousePositionRef := (x, y) \<rparr>))"

text \<open>The two sliders call the setters of \<^verbatim>\<open>attractionRadius\<close> and
  \<^verbatim>\<open>attractionStrength\<close>; the setters of the other state values are never called. A
  state setter stores the value and renders again; the effect has no dependencies and does
  not run again.\<close>

definition setAttractionRadius :: "real \<Rightarrow> sim \<Rightarrow> sim" where
  "setAttractionRadius v s = s\<lparr> props := (props s)\<lparr> attractionRadius := v \<rparr> \<rparr>"

definition setAttractionStrength :: "real \<Rightarrow> sim \<Rightarrow> sim" where
  "setAttractionStrength v s = s\<lparr> props := (props s)\<lparr> attractionStrength := v \<rparr> \<rparr>"

subsection \<open>The animation frame\<close>

text \<open>\<^verbatim>\<open>for (let i = 0; i < bodies.length; i++)\<close> of \<^verbatim>\<open>updateParticlePositions\<close>;
  a mesh missing at index \<open>i\<close> is skipped.\<close>

fun update_loop :: "heap \<Rightarrow> nat list \<Rightarrow> nat \<Rightarrow> nat \<Rightarrow> mesh list \<Rightarrow> mesh list" where
  "update_loop h bs 0 i particles = particles"
| "update_loop h bs (Suc n) i particles =
     update_loop h bs n (Suc i)
       (if i < length particles then
          particles[i := (particles ! i)
            \<lparr> mesh_position := Vec3 (vx (position (h (bs ! i)))) (vy (position (h (bs ! i)))) 0,
              rotation_z := quaternion_z (h (bs ! i)) \<rparr>]
        else particles)"

definition updateParticlePositions :: "sim \<Rightarrow> sim" where
  "updateParticlePositions s =
     s\<lparr> particlesRef :=
          update_loop (body_heap s) (bodiesRef s) (length (bodiesRef s)) 0 (particlesRef s) \<rparr>"

definition deltaTime :: "real \<Rightarrow> real \<Rightarrow> real" where
  "deltaTime prevTime time =
     (if prevTime \<noteq> 0 then min ((time - prevTime) / 1000) 0.1 else 0.016)"

text \<open>
  \<^verbatim>\<open>animate\<close> is a closure of the effect: \<open>p\<close> holds the state values of the render
  the effect ran in, and its \<^verbatim>\<open>world\<close> is the object in \<^verbatim>\<open>worldRef\<close>.
\<close>

definition animate :: "params \<Rightarrow> engine \<Rightarrow> real \<Rightarrow> sim \<Rightarrow> sim" where
  "animate p eng time s =
     (case worldRef s of
        None \<Rightarrow> s
      | Some world \<Rightarrow>
          (let dt = deltaTime (prevTimeRef s) time;
               s1 = s\<lparr> prevTimeRef := time \<rparr>;
               s2 = s1\<lparr> body_heap := world_step eng dt world (body_heap s1) \<rparr>;
               s3 = s2\<lparr> body_heap :=
                          applyForces p (mousePositionRef s2) (bodiesRef s2) (body_heap s2) \<rparr>
           in updateParticlePositions s3))"

text \<open>The states of a mounted component: the effect has run, and frames, resizes,
  pointer moves and slider changes follow in any order.\<close>

inductive reachable :: "sim \<Rightarrow> bool" where
  r_mount: "reachable (mount rnd innerWidth innerHeight initial_sim)"
| r_frame: "reachable s \<Longrightarrow> reachable (animate (props initial_sim) eng time s)"
| r_resize: "reachable s \<Longrightarrow> reachable (handleResize innerWidth innerHeight s)"
| r_mouse: "reachable s \<Longrightarrow>
     reachable (handleMouseMove clientX clientY rectLeft rectTop innerWidth innerHeight s)"
| r_radius: "reachable s \<Longrightarrow> reachable (setAttractionRadius v s)"
| r_strength: "reachable s \<Longrightarrow> reachable (setAttractionStrength v s)"

section \<open>Notions used in the statements\<close>

text \<open>The pointer as a point of the plane.\<close>

definition pointer_at :: "real \<times> real \<Rightarrow> vec3" where
  "pointer_at m = Vec3 (fst m) (snd m) 0"

text \<open>Two particles at rest, as \<^verbatim>\<open>createParticles\<close> makes them: one at the origin (address
  0), one at \<open>(d, 0)\<close> (address 1).\<close>

definition particle_at :: "real \<Rightarrow> real \<Rightarrow> body" where
  "particle_at x y =
     (new_body 1 (Vec3 x y 0) [Sphere 7] particleMaterial)
       \<lparr> linearDamping := 0.3, angularDamping := 0.5 \<rparr>"

definition scenario_heap :: "real \<Rightarrow> heap" where
  "scenario_heap d = (\<lambda>_. particle_at 0 0)(Suc 0 := particle_at d 0)"

text \<open>Three particles at rest on a line: at the origin (address 0), at \<open>(100, 0)\<close>
  (address 1) and at \<open>(50, 0)\<close> (address 2).\<close>

definition three_heap :: heap where
  "three_heap =
     (\<lambda>_. particle_at 0 0)(Suc 0 := particle_at 100 0, Suc (Suc 0) := particle_at 50 0)"

text \<open>The bodies of the world, and those among them that are not particle bodies (not
  in \<^verbatim>\<open>bodiesRef\<close>): the boundaries. The Body Store is \<^verbatim>\<open>bodiesRef\<close>.\<close>

definition world_bodies :: "sim \<Rightarrow> nat list" where
  "world_bodies s = (case worldRef s of None \<Rightarrow> [] | Some w \<Rightarrow> bodies w)"

definition boundary_refs :: "sim \<Rightarrow> nat list" where
  "boundary_refs s = filter (\<lambda>a. a \<notin> set (bodiesRef s)) (world_bodies s)"

definition particle_refs :: "sim \<Rightarrow> nat list" where
  "particle_refs s = filter (\<lambda>a. a \<in> set (bodiesRef s)) (world_bodies s)"

definition boundary_bodies :: "sim \<Rightarrow> body list" where
  "boundary_bodies s = map (body_heap s) (boundary_refs s)"

definition particle_bodies :: "sim \<Rightarrow> body list" where
  "particle_bodies s = map (body_heap s) (bodiesRef s)"

text \<open>A static body (mass 0) of the boundary material at \<open>(x, y)\<close>, a box of size
  \<open>(width, height)\<close> and depth 50.\<close>

definition wall :: "real \<Rightarrow> real \<Rightarrow> real \<Rightarrow> real \<Rightarrow> body" where
  "wall x y width height =
     new_body 0 (Vec3 x y 0) [Box (Vec3 (width / 2) (height / 2) 25)] boundaryMaterial"

text \<open>The component is set up: renderer, camera and world are there, the bodies of the
  world are distinct objects, and every body was allocated.\<close>

definition wf_sim :: "sim \<Rightarrow> bool" where
  "wf_sim s =
     (cameraRef s \<and> rendererRef s \<and>
      (case worldRef s of
         None \<Rightarrow> False
       | Some w \<Rightarrow>
           distinct (bodies w) \<and> list_all (\<lambda>a. a < next_body s) (bodies w)
           \<and> list_all (\<lambda>a. a < next_body s) (bodiesRef s)))"

text \<open>The contact materials registered against the boundary material.\<close>

definition boundary_contacts :: "sim \<Rightarrow> contact_material list" where
  "boundary_contacts s =
     (case worldRef s of
        None \<Rightarrow> []
      | Some w \<Rightarrow> filter (\<lambda>c. mat_name (cm_second c) = ''boundaryMaterial'') (contactmaterials w))"

text \<open>An engine to run frames with: explicit Euler integration of every body of the
  world, without contacts.\<close>

definition euler_body :: "vec3 \<Rightarrow> real \<Rightarrow> body \<Rightarrow> body" where
  "euler_body g dt b =
     (let v = vadd (velocity b) (vscale dt (vadd g (vscale (1 / mass b) (force b))))
      in b\<lparr> velocity := v, position := vadd (position b) (vscale dt v) \<rparr>)"

fun euler :: engine where
  "euler g dt [] h = h"
| "euler g dt (a # as) h = euler g dt as (h(a := euler_body g dt (h a)))"

text \<open>A set-up component with the two particles of \<open>scenario_heap\<close> and no boundary
  yet.\<close>

definition scenario_sim :: "real \<Rightarrow> sim" where
  "scenario_sim d =
     \<lparr> props = default_params, canvasRef = True, sceneRef = True, rendererRef = True,
       cameraRef = True,
       worldRef = Some \<lparr> gravity = Vec3 0 (- 1000) 0, bodies = [0, Suc 0],
                          contactmaterials = [] \<rparr>,
       body_heap = scenario_heap d, next_body = 2,
       bodiesRef = [0, Suc 0],
       particlesRef = [\<lparr> mesh_position = Vec3 0 0 0, rotation_z = 0 \<rparr>,
                       \<lparr> mesh_position = Vec3 d 0 0, rotation_z = 0 \<rparr>],
       mousePositionRef = (0, 0), prevTimeRef = 0 \<rparr>"

text \<open>Meshes and bodies made in step: same number, same place, and every body is a
  particle of mass 1 at an allocated address.\<close>

definition paired :: "heap \<Rightarrow> nat \<Rightarrow> mesh list \<Rightarrow> nat list \<Rightarrow> bool" where
  "paired h n ms bs =
     list_all2 (\<lambda>m a. a < n \<and> mesh_position m = position (h a) \<and> mass (h a) = 1
                  \<and> body_material (h a) = particleMaterial) ms bs"


text \<open>The contact material that \<^verbatim>\<open>createBoundaries\<close> registers.\<close>

definition boundary_contact :: "sim \<Rightarrow> contact_material" where
  "boundary_contact s =
     \<lparr> cm_first = body_material (body_heap s (bodiesRef s ! 0)), cm_second = boundaryMaterial,
       cm_friction = 0, cm_restitution = 0.5 \<rparr>"

text \<open>The frame in the order the specification gives it: Force Model, then the physics
  step, then Render Sync. It is here to be compared with \<open>animate\<close>.\<close>

definition animate_forces_first :: "params \<Rightarrow> engine \<Rightarrow> real \<Rightarrow> sim \<Rightarrow> sim" where
  "animate_forces_first p eng time s =
     (case worldRef s of
        None \<Rightarrow> s
      | Some world \<Rightarrow>
          (let dt = deltaTime (prevTimeRef s) time;
               s1 = s\<lparr> prevTimeRef := time \<rparr>;
               s2 = s1\<lparr> body_heap :=
                          applyForces p (mousePositionRef s1) (bodiesRef s1) (body_heap s1) \<rparr>;
               s3 = s2\<lparr> body_heap := world_step eng dt world (body_heap s2) \<rparr>
           in updateParticlePositions s3))"

text \<open>The pairs of a list of bodies, each body with every later one.\<close>

fun pairs_of :: "nat list \<Rightarrow> (nat \<times> nat) list" where
  "pairs_of [] = []"
| "pairs_of (a # as) = map (Pair a) as @ pairs_of as"

text \<open>The force a round applies, or zero when it applies none: of the pointer on a
  particle, and of particle B on particle A.\<close>

definition repulsion :: "params \<Rightarrow> real \<times> real \<Rightarrow> vec3 \<Rightarrow> vec3" where
  "repulsion p m pos = (case pushForce p m pos of None \<Rightarrow> vzero | Some f \<Rightarrow> f)"

definition attraction :: "params \<Rightarrow> vec3 \<Rightarrow> vec3 \<Rightarrow> vec3" where
  "attraction p posA posB = (case attractForce p posA posB of None \<Rightarrow> vzero | Some f \<Rightarrow> f)"

text \<open>The attractions of the bodies \<open>bs\<close> on a body at \<open>pos\<close>, added one after the other
  to \<open>acc\<close>.\<close>

definition add_attractions :: "params \<Rightarrow> heap \<Rightarrow> vec3 \<Rightarrow> nat list \<Rightarrow> vec3 \<Rightarrow> vec3" where
  "add_attractions p h pos bs acc =
     fold (\<lambda>b acc. vadd acc (attraction p pos (position (h b)))) bs acc"

section \<open>Properties of the force model\<close>

lemma sqrt_square_nonneg: "0 \<le> x \<Longrightarrow> sqrt (x * x) = x"
  by (simp add: real_sqrt_mult)

lemma distance2d_nonneg: "0 \<le> distance2d a b"
  by (simp add: distance2d_def)

lemma vnorm_direction2d:
  assumes d: "0 < distance2d a b"
  shows "vnorm (direction2d a b) = 1"
proof -
  let ?dx = "vx b - vx a" and ?dy = "vy b - vy a" and ?d = "distance2d a b"
  have sq: "?d * ?d = ?dx * ?dx + ?dy * ?dy"
    unfolding distance2d_def by (simp add: sum_nonneg)
  have "(?dx / ?d) * (?dx / ?d) + (?dy / ?d) * (?dy / ?d) = (?dx * ?dx + ?dy * ?dy) / (?d * ?d)"
    by (simp add: add_divide_distrib)
  also have "\<dots> = (?d * ?d) / (?d * ?d)" by (simp only: sq)
  also have "\<dots> = 1" using d by simp
  finally show ?thesis
    by (simp add: vnorm_def direction2d_def)
qed

lemma vnorm_vscale: "vnorm (vscale k v) = \<bar>k\<bar> * vnorm v"
proof -
  have "k * vx v * (k * vx v) + k * vy v * (k * vy v) + k * vz v * (k * vz v)
        = (k * k) * (vx v * vx v + vy v * vy v + vz v * vz v)"
    by (simp add: algebra_simps)
  then show ?thesis
    by (simp add: vnorm_def vscale_def real_sqrt_mult)
qed

lemma scenario_distance:
  "0 \<le> d \<Longrightarrow>
     distance2d (position (scenario_heap d 0)) (position (scenario_heap d (Suc 0))) = d"
  by (simp add: scenario_heap_def particle_at_def new_body_def distance2d_def
      sqrt_square_nonneg)

lemma scenario_direction:
  "0 < d \<Longrightarrow>
     direction2d (position (scenario_heap d 0)) (position (scenario_heap d (Suc 0))) = Vec3 1 0 0"
  by (simp add: scenario_heap_def particle_at_def new_body_def distance2d_def direction2d_def
      sqrt_square_nonneg)

lemma scenario_force:
  "force (scenario_heap d a) = Vec3 0 0 0"
  by (simp add: scenario_heap_def particle_at_def new_body_def vzero_def)

subsection \<open>Pairwise attraction\<close>

lemma attractForce_in_range:
  assumes "0 < particleRadius p"
    and "2 * particleRadius p \<le> distance2d posA posB"
    and "distance2d posA posB \<le> attractionRadius p"
  shows "attractForce p posA posB =
           Some (vscale (attractionStrength p / (distance2d posA posB)\<^sup>2) (direction2d posA posB))"
  using assms
  by (simp add: attractForce_def Let_def distance2d_def direction2d_def vscale_def
      power2_eq_square)

text \<open>
  One round of the pair loop, for distinct particles A and B at a distance \<open>d\<close> with
  \<open>2 * particleRadius \<le> d \<le> attractionRadius\<close> (and a positive radius): it adds to A's
  force the vector \<open>F\<close> of size \<open>attractionStrength / d\<^sup>2\<close> times the unit vector from A to
  B, and adds to B's force the componentwise negation of \<open>F\<close>.
\<close>

lemma attract_pair_round:
  assumes "a \<noteq> b" and "0 < particleRadius p"
    and "d = distance2d (position (h a)) (position (h b))"
    and "2 * particleRadius p \<le> d" and "d \<le> attractionRadius p"
  shows "let F = vscale (attractionStrength p / d\<^sup>2)
                   (direction2d (position (h a)) (position (h b)))
         in force (attract_pair p a b h a) = vadd (force (h a)) F
          \<and> force (attract_pair p a b h b) = vadd (force (h b)) (vneg F)
          \<and> vnorm (direction2d (position (h a)) (position (h b))) = 1
          \<and> vnorm F = \<bar>attractionStrength p\<bar> / d\<^sup>2
          \<and> (d = 100 \<and> attractionStrength p = 25000 \<longrightarrow> vnorm F = 5 / 2)"
proof -
  let ?u = "direction2d (position (h a)) (position (h b))"
  let ?F = "vscale (attractionStrength p / d\<^sup>2) ?u"
  have dpos: "0 < d" using assms by linarith
  have af: "attractForce p (position (h a)) (position (h b)) = Some ?F"
    using attractForce_in_range [of p "position (h a)" "position (h b)"] assms by simp
  have u1: "vnorm ?u = 1" using vnorm_direction2d dpos assms(3) by simp
  have z: "vz ?F = 0" by (simp add: vscale_def direction2d_def)
  have fa: "force (attract_pair p a b h a) = vadd (force (h a)) ?F"
    using \<open>a \<noteq> b\<close> z by (simp add: attract_pair_def af Let_def applyForce_def vadd_def)
  have fb: "force (attract_pair p a b h b) = vadd (force (h b)) (vneg ?F)"
    using \<open>a \<noteq> b\<close> z
    by (simp add: attract_pair_def af Let_def applyForce_def vadd_def vneg_def)
  have n: "vnorm ?F = \<bar>attractionStrength p\<bar> / d\<^sup>2"
    by (simp add: vnorm_vscale u1)
  have s: "d = 100 \<and> attractionStrength p = 25000 \<longrightarrow> vnorm ?F = 5 / 2"
  proof
    assume "d = 100 \<and> attractionStrength p = 25000"
    then have "\<bar>attractionStrength p\<bar> / d\<^sup>2 = 5 / 2" by simp
    then show "vnorm ?F = 5 / 2" using n by simp
  qed
  show ?thesis unfolding Let_def using fa fb u1 n s by blast
qed

text \<open>
  Claim C2, as amended. For a pair of particles at a distance \<open>d\<close> with
  \<open>d < 2 * particleRadius\<close> or \<open>d > attractionRadius\<close>, the round of the pair loop changes
  nothing: the contribution to both forces is zero. (At \<open>d = 2 * particleRadius\<close> exactly
  the pair is in range and the force is applied.)
\<close>

theorem attract_pair_out_of_range:
  assumes "d = distance2d (position (h a)) (position (h b))"
    and "d < 2 * particleRadius p \<or> d > attractionRadius p"
  shows "attract_pair p a b h = h"
  using assms by (auto simp: attract_pair_def attractForce_def Let_def distance2d_def)

theorem attract_pair_out_of_range_witness:
  "distance2d (position (scenario_heap 10 0)) (position (scenario_heap 10 (Suc 0)))
     < 2 * particleRadius default_params
   \<and> distance2d (position (scenario_heap 200 0)) (position (scenario_heap 200 (Suc 0)))
     > attractionRadius default_params
   \<and> attract_pair default_params 0 (Suc 0) (scenario_heap 10) = scenario_heap 10
   \<and> attract_pair default_params 0 (Suc 0) (scenario_heap 200) = scenario_heap 200"
  using attract_pair_out_of_range [of 10 "scenario_heap 10" 0 "Suc 0" default_params]
    attract_pair_out_of_range [of 200 "scenario_heap 200" 0 "Suc 0" default_params]
  by (simp add: scenario_distance default_params_def)

text \<open>Two particles exactly \<open>2 * particleRadius = 14\<close> apart: the distance is
  \<open>\<le> 2 * particleRadius\<close>, and each receives a force that is not zero.\<close>

theorem attract_pair_touching_counterexample:
  "distance2d (position (scenario_heap 14 0)) (position (scenario_heap 14 (Suc 0)))
     \<le> 2 * particleRadius default_params
   \<and> force (scenario_heap 14 0) = Vec3 0 0 0
   \<and> force (scenario_heap 14 (Suc 0)) = Vec3 0 0 0
   \<and> force (attract_pair default_params 0 (Suc 0) (scenario_heap 14) 0) = Vec3 (6250 / 49) 0 0
   \<and> force (attract_pair default_params 0 (Suc 0) (scenario_heap 14) (Suc 0))
       = Vec3 (- (6250 / 49)) 0 0
   \<and> attract_pair default_params 0 (Suc 0) (scenario_heap 14) \<noteq> scenario_heap 14"
proof -
  have "distance2d (position (scenario_heap 14 0)) (position (scenario_heap 14 (Suc 0))) = 14"
    by (simp add: scenario_distance)
  moreover have
    "force (attract_pair default_params 0 (Suc 0) (scenario_heap 14) 0) = Vec3 (6250 / 49) 0 0"
    "force (attract_pair default_params 0 (Suc 0) (scenario_heap 14) (Suc 0))
       = Vec3 (- (6250 / 49)) 0 0"
    by (simp_all add: default_params_def attract_pair_def attractForce_def Let_def
        scenario_heap_def particle_at_def new_body_def vzero_def applyForce_def vadd_def
        sqrt_square_nonneg)
  moreover have "attract_pair default_params 0 (Suc 0) (scenario_heap 14) \<noteq> scenario_heap 14"
  proof
    assume "attract_pair default_params 0 (Suc 0) (scenario_heap 14) = scenario_heap 14"
    then have "force (attract_pair default_params 0 (Suc 0) (scenario_heap 14) 0)
                 = force (scenario_heap 14 0)"
      by simp
    then show False
      by (simp add: default_params_def attract_pair_def attractForce_def Let_def
          scenario_heap_def particle_at_def new_body_def vzero_def applyForce_def vadd_def
          sqrt_square_nonneg)
  qed
  ultimately show ?thesis by (simp add: default_params_def scenario_force)
qed

subsection \<open>Pointer repulsion\<close>

lemma pushForce_in_range:
  assumes "1 < distance2d (pointer_at m) pos" and "distance2d (pointer_at m) pos < pushRadius p"
  shows "pushForce p m pos =
           Some (vscale ((pushRadius p - distance2d (pointer_at m) pos) / pushRadius p * pushStrength p)
                   (direction2d (pointer_at m) pos))"
  using assms
  by (simp add: pushForce_def Let_def distance2d_def direction2d_def vscale_def pointer_at_def)

lemma pushForce_out_of_range:
  assumes "distance2d (pointer_at m) pos \<le> 1 \<or> pushRadius p \<le> distance2d (pointer_at m) pos"
  shows "pushForce p m pos = None"
  using assms
  by (auto simp: pushForce_def Let_def distance2d_def pointer_at_def)

text \<open>
  One round of the pointer loop, for a particle at distance \<open>d\<close> from the pointer: if
  \<open>1 < d < pushRadius\<close> it adds to the particle's force the vector of size
  \<open>(pushRadius - d) / pushRadius * pushStrength\<close> times the unit vector from the pointer to
  the particle; if \<open>d \<le> 1\<close> or \<open>d \<ge> pushRadius\<close> it changes nothing.
\<close>

lemma push_body_round:
  assumes "d = distance2d (pointer_at m) (position (h a))"
  shows "(1 < d \<and> d < pushRadius p \<longrightarrow>
            (let F = vscale ((pushRadius p - d) / pushRadius p * pushStrength p)
                       (direction2d (pointer_at m) (position (h a)))
             in force (push_body p m a h a) = vadd (force (h a)) F
              \<and> vnorm (direction2d (pointer_at m) (position (h a))) = 1
              \<and> (0 \<le> pushStrength p \<longrightarrow> vnorm F = (pushRadius p - d) / pushRadius p * pushStrength p)
              \<and> (0 \<le> pushStrength p \<and> pushRadius p = 80 \<and> d = 40 \<longrightarrow> vnorm F = 0.5 * pushStrength p)))
       \<and> (d \<le> 1 \<or> d \<ge> pushRadius p \<longrightarrow> push_body p m a h = h)"
proof (intro conjI impI)
  assume r: "1 < d \<and> d < pushRadius p"
  let ?u = "direction2d (pointer_at m) (position (h a))"
  let ?k = "(pushRadius p - d) / pushRadius p * pushStrength p"
  let ?F = "vscale ?k ?u"
  have pf: "pushForce p m (position (h a)) = Some ?F"
    using pushForce_in_range [of m "position (h a)" p] r assms by simp
  have u1: "vnorm ?u = 1" using vnorm_direction2d [of "pointer_at m" "position (h a)"] r assms by simp
  have fa: "force (push_body p m a h a) = vadd (force (h a)) ?F"
    by (simp add: push_body_def pf applyForce_def)
  have sc: "0 < (pushRadius p - d) / pushRadius p" using r by simp
  have n: "0 \<le> pushStrength p \<longrightarrow> vnorm ?F = ?k"
  proof
    assume "0 \<le> pushStrength p"
    then have "0 \<le> ?k" using sc by (intro mult_nonneg_nonneg) simp_all
    then show "vnorm ?F = ?k" by (simp only: vnorm_vscale u1 abs_of_nonneg mult_1_right)
  qed
  have s: "0 \<le> pushStrength p \<and> pushRadius p = 80 \<and> d = 40 \<longrightarrow> vnorm ?F = 0.5 * pushStrength p"
  proof
    assume a: "0 \<le> pushStrength p \<and> pushRadius p = 80 \<and> d = 40"
    then have "vnorm ?F = ?k" using n by blast
    moreover have "?k = 0.5 * pushStrength p" using a by simp
    ultimately show "vnorm ?F = 0.5 * pushStrength p" by simp
  qed
  show "let F = ?F in force (push_body p m a h a) = vadd (force (h a)) F
              \<and> vnorm ?u = 1
              \<and> (0 \<le> pushStrength p \<longrightarrow> vnorm F = ?k)
              \<and> (0 \<le> pushStrength p \<and> pushRadius p = 80 \<and> d = 40 \<longrightarrow> vnorm F = 0.5 * pushStrength p)"
    unfolding Let_def using fa u1 n s by blast
next
  assume "d \<le> 1 \<or> d \<ge> pushRadius p"
  then have "pushForce p m (position (h a)) = None"
    using pushForce_out_of_range [of m "position (h a)" p] assms by simp
  then show "push_body p m a h = h" by (simp add: push_body_def)
qed

text \<open>
  Claim C4. For a positive push strength and push radius and two particle positions at
  distances \<open>1 < d1 < d2 < pushRadius\<close> from the pointer, the pointer force is applied at
  both, and its magnitude at \<open>d1\<close> is strictly greater than at \<open>d2\<close>.
\<close>

theorem pushForce_strictly_decreasing:
  assumes "0 < pushStrength p" and "0 < pushRadius p"
    and "d1 = distance2d (pointer_at m) pos1" and "d2 = distance2d (pointer_at m) pos2"
    and "1 < d1" and "d1 < d2" and "d2 < pushRadius p"
  shows "\<exists>f1 f2. pushForce p m pos1 = Some f1 \<and> pushForce p m pos2 = Some f2
           \<and> vnorm f1 = (pushRadius p - d1) / pushRadius p * pushStrength p
           \<and> vnorm f2 = (pushRadius p - d2) / pushRadius p * pushStrength p
           \<and> vnorm f2 < vnorm f1"
proof -
  let ?k1 = "(pushRadius p - d1) / pushRadius p * pushStrength p"
  let ?k2 = "(pushRadius p - d2) / pushRadius p * pushStrength p"
  let ?f1 = "vscale ?k1 (direction2d (pointer_at m) pos1)"
  let ?f2 = "vscale ?k2 (direction2d (pointer_at m) pos2)"
  have p1: "pushForce p m pos1 = Some ?f1"
    using pushForce_in_range [of m pos1 p] assms by simp
  have p2: "pushForce p m pos2 = Some ?f2"
    using pushForce_in_range [of m pos2 p] assms by simp
  have k1: "0 \<le> ?k1" and k2: "0 \<le> ?k2"
    using assms by (intro mult_nonneg_nonneg divide_nonneg_pos; simp)+
  have u1: "vnorm (direction2d (pointer_at m) pos1) = 1"
    using vnorm_direction2d [of "pointer_at m" pos1] assms by simp
  have u2: "vnorm (direction2d (pointer_at m) pos2) = 1"
    using vnorm_direction2d [of "pointer_at m" pos2] assms by simp
  have n1: "vnorm ?f1 = ?k1"
    using k1 by (simp only: vnorm_vscale u1 abs_of_nonneg mult_1_right)
  have n2: "vnorm ?f2 = ?k2"
    using k2 by (simp only: vnorm_vscale u2 abs_of_nonneg mult_1_right)
  have "(pushRadius p - d2) / pushRadius p < (pushRadius p - d1) / pushRadius p"
    using assms by (simp add: divide_strict_right_mono)
  then have lt: "?k2 < ?k1" using assms(1) by (rule mult_strict_right_mono)
  show ?thesis using p1 p2 n1 n2 lt by simp
qed


lemma scenario_pointer_distance:
  "0 \<le> d \<Longrightarrow> distance2d (pointer_at (0, 0)) (position (scenario_heap d (Suc 0))) = d"
  by (simp add: scenario_heap_def particle_at_def new_body_def distance2d_def pointer_at_def
      sqrt_square_nonneg)

lemma scenario_pointer_direction:
  "0 < d \<Longrightarrow> direction2d (pointer_at (0, 0)) (position (scenario_heap d (Suc 0))) = Vec3 1 0 0"
  by (simp add: scenario_heap_def particle_at_def new_body_def distance2d_def direction2d_def
      pointer_at_def sqrt_square_nonneg)

theorem pushForce_strictly_decreasing_witness:
  "0 < pushStrength default_params \<and> 0 < pushRadius default_params
   \<and> distance2d (pointer_at (0, 0)) (position (scenario_heap 40 (Suc 0))) = 40
   \<and> distance2d (pointer_at (0, 0)) (position (scenario_heap 60 (Suc 0))) = 60
   \<and> (\<exists>f1 f2. pushForce default_params (0, 0) (position (scenario_heap 40 (Suc 0))) = Some f1
        \<and> pushForce default_params (0, 0) (position (scenario_heap 60 (Suc 0))) = Some f2
        \<and> vnorm f1 = 15000 \<and> vnorm f2 = 7500 \<and> vnorm f2 < vnorm f1)"
  using pushForce_strictly_decreasing [of default_params 40 "(0, 0)"
      "position (scenario_heap 40 (Suc 0))" 60 "position (scenario_heap 60 (Suc 0))"]
  by (simp add: scenario_pointer_distance default_params_def)

subsection \<open>The loops visit every particle and every unordered pair once\<close>

lemma push_all_fold: "push_all p m ids h = fold (push_body p m) ids h"
  by (induction ids arbitrary: h) simp_all

lemma attract_inner_fold:
  "attract_inner p a bs h = fold (\<lambda>(a, b). attract_pair p a b) (map (Pair a) bs) h"
  by (induction bs arbitrary: h) simp_all

lemma attract_outer_fold:
  "attract_outer p ids h = fold (\<lambda>(a, b). attract_pair p a b) (pairs_of ids) h"
  by (induction ids arbitrary: h) (simp_all add: attract_inner_fold)

lemma set_pairs_of:
  "set (pairs_of ids) = {(ids ! i, ids ! j) | i j. i < j \<and> j < length ids}"
proof (induction ids)
  case Nil
  then show ?case by simp
next
  case (Cons a ids)
  have "{((a # ids) ! i, (a # ids) ! j) | i j. i < j \<and> j < length (a # ids)}
        = {(a, ids ! j) | j. j < length ids}
          \<union> {(ids ! i, ids ! j) | i j. i < j \<and> j < length ids}" (is "?L = ?A \<union> ?B")
  proof (intro set_eqI iffI)
    fix x assume "x \<in> ?L"
    then obtain i j where x: "x = ((a # ids) ! i, (a # ids) ! j)" and ij: "i < j" "j < length (a # ids)"
      by blast
    from ij obtain j' where j: "j = Suc j'" by (cases j) auto
    show "x \<in> ?A \<union> ?B"
    proof (cases i)
      case 0
      then show ?thesis using x j ij by auto
    next
      case (Suc i')
      then have "x = (ids ! i', ids ! j')" "i' < j'" "j' < length ids" using x j ij by auto
      then show ?thesis by blast
    qed
  next
    fix x assume "x \<in> ?A \<union> ?B"
    then show "x \<in> ?L"
    proof
      assume "x \<in> ?A"
      then obtain j where "x = (a, ids ! j)" "j < length ids" by blast
      then have "x = ((a # ids) ! 0, (a # ids) ! Suc j) \<and> 0 < Suc j \<and> Suc j < length (a # ids)"
        by simp
      then show ?thesis by blast
    next
      assume "x \<in> ?B"
      then obtain i j where "x = (ids ! i, ids ! j)" "i < j" "j < length ids" by blast
      then have "x = ((a # ids) ! Suc i, (a # ids) ! Suc j) \<and> Suc i < Suc j
                 \<and> Suc j < length (a # ids)"
        by simp
      then show ?thesis by blast
    qed
  qed
  moreover have "set (map (Pair a) ids) = {(a, ids ! j) | j. j < length ids}"
    by (auto simp: in_set_conv_nth image_iff)
  ultimately show ?case using Cons.IH by simp
qed

lemma pairs_of_fst_snd:
  "(a, b) \<in> set (pairs_of ids) \<Longrightarrow> a \<in> set ids \<and> b \<in> set ids"
  by (induction ids) auto

lemma distinct_pairs_of:
  "distinct ids \<Longrightarrow> distinct (pairs_of ids)"
proof (induction ids)
  case Nil
  then show ?case by simp
next
  case (Cons a ids)
  have "distinct (map (Pair a) ids)"
    using Cons.prems by (simp add: distinct_map inj_on_def)
  moreover have "set (map (Pair a) ids) \<inter> set (pairs_of ids) = {}"
    using Cons.prems by (auto dest: pairs_of_fst_snd)
  ultimately show ?case using Cons by simp
qed

lemma pairs_of_not_swapped:
  "distinct ids \<Longrightarrow> (a, b) \<in> set (pairs_of ids) \<Longrightarrow> (b, a) \<notin> set (pairs_of ids) \<and> a \<noteq> b"
proof (induction ids)
  case Nil
  then show ?case by simp
next
  case (Cons c ids)
  then show ?case by (auto dest: pairs_of_fst_snd)
qed

section \<open>The frame\<close>

lemma spawn_world_gravity:
  "gravity (sp_world (spawn rnd r hw hh n i st)) = gravity (sp_world st)"
  by (induction n arbitrary: i st) (simp_all add: spawn_one_def Let_def addBody_def)

lemma createParticles_prevTime: "prevTimeRef (createParticles p rnd iw ih s) = prevTimeRef s"
  by (simp add: createParticles_def Let_def split: option.splits)

lemma createBoundaries_prevTime: "prevTimeRef (createBoundaries bw bh s) = prevTimeRef s"
  by (simp add: createBoundaries_def Let_def split: option.splits)

lemma mount_prevTime: "prevTimeRef (mount rnd iw ih s) = prevTimeRef s"
  by (simp add: mount_def Let_def createParticles_prevTime createBoundaries_prevTime)

lemma updateParticlePositions_fields:
  "body_heap (updateParticlePositions s) = body_heap s"
  "worldRef (updateParticlePositions s) = worldRef s"
  "bodiesRef (updateParticlePositions s) = bodiesRef s"
  "prevTimeRef (updateParticlePositions s) = prevTimeRef s"
  "mousePositionRef (updateParticlePositions s) = mousePositionRef s"
  "props (updateParticlePositions s) = props s"
  "next_body (updateParticlePositions s) = next_body s"
  "cameraRef (updateParticlePositions s) = cameraRef s"
  "rendererRef (updateParticlePositions s) = rendererRef s"
  by (simp_all add: updateParticlePositions_def)

lemma animate_heap:
  "worldRef s = Some w \<Longrightarrow>
     body_heap (animate p eng time s) =
       applyForces p (mousePositionRef s) (bodiesRef s)
         (world_step eng (deltaTime (prevTimeRef s) time) w (body_heap s))"
  by (simp add: animate_def Let_def updateParticlePositions_fields)

lemma animate_fields:
  "worldRef (animate p eng time s) = worldRef s"
  "bodiesRef (animate p eng time s) = bodiesRef s"
  "mousePositionRef (animate p eng time s) = mousePositionRef s"
  "props (animate p eng time s) = props s"
  "next_body (animate p eng time s) = next_body s"
  "cameraRef (animate p eng time s) = cameraRef s"
  "rendererRef (animate p eng time s) = rendererRef s"
  by (simp_all add: animate_def Let_def updateParticlePositions_fields split: option.splits)

lemma animate_prevTime:
  "worldRef s = Some w \<Longrightarrow> prevTimeRef (animate p eng time s) = time"
  by (simp add: animate_def Let_def updateParticlePositions_fields)

lemma deltaTime_le: "deltaTime prevTime time \<le> 0.1"
  by (simp add: deltaTime_def min_def)

text \<open>
  Claim C6. With a timestamp history (a previous timestamp that is not 0), the delta-time
  of a frame is the elapsed time in seconds clamped to at most 0.1: an elapsed time of 5.0
  gives 0.1. Without one, as in the first frame after the set-up, it is 0.016. It is never
  more than 0.1, it is what the physics step of the frame is called with, and the frame
  leaves its timestamp as the history of the next one.
\<close>

theorem deltaTime_clamped:
  "(prevTimeRef s \<noteq> 0 \<longrightarrow>
      deltaTime (prevTimeRef s) time = min ((time - prevTimeRef s) / 1000) 0.1)
   \<and> (prevTimeRef s \<noteq> 0 \<and> (time - prevTimeRef s) / 1000 = 5 \<longrightarrow>
      deltaTime (prevTimeRef s) time = 0.1)
   \<and> deltaTime (prevTimeRef s) time \<le> 0.1
   \<and> prevTimeRef initial_sim = 0
   \<and> deltaTime (prevTimeRef (mount rnd innerWidth innerHeight initial_sim)) time = 0.016
   \<and> (worldRef s = Some w \<longrightarrow>
        body_heap (animate p eng time s) =
          applyForces p (mousePositionRef s) (bodiesRef s)
            (world_step eng (deltaTime (prevTimeRef s) time) w (body_heap s))
        \<and> prevTimeRef (animate p eng time s) = time)"
proof (intro conjI impI)
  show "deltaTime (prevTimeRef (mount rnd innerWidth innerHeight initial_sim)) time = 0.016"
    by (simp add: mount_prevTime initial_sim_def deltaTime_def)
next
  show "deltaTime (prevTimeRef s) time \<le> 0.1" by (rule deltaTime_le)
qed (simp_all add: deltaTime_def initial_sim_def animate_heap animate_prevTime)

theorem deltaTime_clamped_witness:
  "prevTimeRef ((scenario_sim 100)\<lparr> prevTimeRef := 1000 \<rparr>) \<noteq> 0
   \<and> deltaTime (prevTimeRef ((scenario_sim 100)\<lparr> prevTimeRef := 1000 \<rparr>)) 6000 = 0.1
   \<and> prevTimeRef (animate default_params euler 6000 ((scenario_sim 100)\<lparr> prevTimeRef := 1000 \<rparr>))
       = 6000
   \<and> deltaTime (prevTimeRef (mount (\<lambda>_. 0) 800 600 initial_sim)) 16 = 0.016"
proof -
  have w: "worldRef ((scenario_sim 100)\<lparr> prevTimeRef := 1000 \<rparr>) =
             Some \<lparr> gravity = Vec3 0 (- 1000) 0, bodies = [0, Suc 0], contactmaterials = [] \<rparr>"
    by (simp add: scenario_sim_def)
  show ?thesis
    using deltaTime_clamped [where s = "(scenario_sim 100)\<lparr> prevTimeRef := 1000 \<rparr>"
        and time = 6000 and p = default_params and eng = euler and rnd = "\<lambda>_. 0"
        and innerWidth = 800 and innerHeight = 600
        and w = "\<lparr> gravity = Vec3 0 (- 1000) 0, bodies = [0, Suc 0], contactmaterials = [] \<rparr>"]
      deltaTime_clamped [where s = "(scenario_sim 100)\<lparr> prevTimeRef := 1000 \<rparr>"
        and time = 16 and p = default_params and eng = euler and rnd = "\<lambda>_. 0"
        and innerWidth = 800 and innerHeight = 600
        and w = "\<lparr> gravity = Vec3 0 (- 1000) 0, bodies = [0, Suc 0], contactmaterials = [] \<rparr>"]
      w
    by simp
qed

section \<open>Setting up\<close>

subsection \<open>The particle loop\<close>

lemma spawn_next: "sp_next (spawn rnd r hw hh n i st) = sp_next st + n"
  by (induction n arbitrary: i st) (simp_all add: spawn_one_def Let_def)

lemma spawn_bodies:
  "sp_bodies (spawn rnd r hw hh n i st) = sp_bodies st @ [sp_next st ..< sp_next st + n]"
proof (induction n arbitrary: i st)
  case 0
  then show ?case by simp
next
  case (Suc n)
  have "[sp_next st ..< sp_next st + Suc n] = sp_next st # [Suc (sp_next st) ..< Suc (sp_next st) + n]"
    by (simp add: upt_conv_Cons)
  then show ?case
    by (simp add: Suc.IH) (simp add: spawn_one_def Let_def)
qed

lemma spawn_world_bodies:
  "bodies (sp_world (spawn rnd r hw hh n i st)) =
     bodies (sp_world st) @ [sp_next st ..< sp_next st + n]"
proof (induction n arbitrary: i st)
  case 0
  then show ?case by simp
next
  case (Suc n)
  have "[sp_next st ..< sp_next st + Suc n] = sp_next st # [Suc (sp_next st) ..< Suc (sp_next st) + n]"
    by (simp add: upt_conv_Cons)
  then show ?case
    by (simp add: Suc.IH) (simp add: spawn_one_def Let_def addBody_def)
qed

lemma spawn_contactmaterials:
  "contactmaterials (sp_world (spawn rnd r hw hh n i st)) = contactmaterials (sp_world st)"
  by (induction n arbitrary: i st) (simp_all add: spawn_one_def Let_def addBody_def)

lemma spawn_heap_old:
  "a < sp_next st \<Longrightarrow> sp_heap (spawn rnd r hw hh n i st) a = sp_heap st a"
  by (induction n arbitrary: i st) (simp_all add: spawn_one_def Let_def)

lemma paired_mono:
  assumes "paired h n ms bs" and "n \<le> n'" and "\<And>a. a < n \<Longrightarrow> h' a = h a"
  shows "paired h' n' ms bs"
  using assms unfolding paired_def
  by (auto elim!: list_all2_mono)

lemma spawn_one_paired:
  assumes "paired (sp_heap st) (sp_next st) (sp_particles st) (sp_bodies st)"
  shows "paired (sp_heap (spawn_one rnd r hw hh i st)) (sp_next (spawn_one rnd r hw hh i st))
           (sp_particles (spawn_one rnd r hw hh i st)) (sp_bodies (spawn_one rnd r hw hh i st))"
proof -
  let ?st = "spawn_one rnd r hw hh i st"
  have old: "paired (sp_heap ?st) (sp_next ?st) (sp_particles st) (sp_bodies st)"
    using assms by (rule paired_mono) (simp_all add: spawn_one_def Let_def)
  show ?thesis
    using old unfolding paired_def
    by (simp add: spawn_one_def Let_def new_body_def list_all2_appendI)
qed

lemma spawn_paired:
  "paired (sp_heap st) (sp_next st) (sp_particles st) (sp_bodies st) \<Longrightarrow>
   paired (sp_heap (spawn rnd r hw hh n i st)) (sp_next (spawn rnd r hw hh n i st))
     (sp_particles (spawn rnd r hw hh n i st)) (sp_bodies (spawn rnd r hw hh n i st))"
proof (induction n arbitrary: i st)
  case 0
  then show ?case by simp
next
  case (Suc n)
  show ?case
    using Suc.IH [OF spawn_one_paired [OF Suc.prems]] by simp
qed

subsection \<open>createBoundaries and createParticles, unfolded\<close>

lemma createBoundaries_Some:
  assumes "worldRef s = Some w"
  shows "createBoundaries bw bh s =
           s\<lparr> worldRef := Some (w\<lparr> bodies := bodies w @ [next_body s, Suc (next_body s),
                                                      Suc (Suc (next_body s)),
                                                      Suc (Suc (Suc (next_body s)))],
                                   contactmaterials := contactmaterials w @
                                     (if bodiesRef s = [] then [] else [boundary_contact s]) \<rparr>),
              body_heap := (body_heap s)
                (next_body s := wall 0 (bh / 2 + 25) bw 50,
                 Suc (next_body s) := wall 0 (- (bh / 2) - 25) bw 50,
                 Suc (Suc (next_body s)) := wall (- (bw / 2) - 25) 0 50 bh,
                 Suc (Suc (Suc (next_body s))) := wall (bw / 2 + 25) 0 50 bh),
              next_body := Suc (Suc (Suc (Suc (next_body s)))) \<rparr>"
  using assms
  by (simp add: createBoundaries_def Let_def createWall_def addBody_def addContactMaterial_def
      wall_def boundary_contact_def)

lemma createParticles_Some:
  assumes "worldRef s = Some w" and "sceneRef s"
  shows "\<exists>h ms.
           createParticles p rnd iw ih s =
             s\<lparr> worldRef := Some (w\<lparr> bodies := bodies w @ [next_body s ..< next_body s + numParticles p],
                                     contactmaterials := contactmaterials w @
                                        [\<lparr> cm_first = particleMaterial, cm_second = particleMaterial,
                                           cm_friction = 0.01, cm_restitution = 0.3 \<rparr>] \<rparr>),
                body_heap := h, next_body := next_body s + numParticles p,
                particlesRef := ms,
                bodiesRef := [next_body s ..< next_body s + numParticles p] \<rparr>
           \<and> (\<forall>a < next_body s. h a = body_heap s a)
           \<and> paired h (next_body s + numParticles p) ms [next_body s ..< next_body s + numParticles p]"
proof -
  let ?ini = "\<lparr> sp_world = addContactMaterial
                   \<lparr> cm_first = particleMaterial, cm_second = particleMaterial,
                     cm_friction = 0.01, cm_restitution = 0.3 \<rparr> w,
                 sp_heap = body_heap s, sp_next = next_body s,
                 sp_particles = [], sp_bodies = [] \<rparr>"
  let ?st = "spawn rnd (particleRadius p) (iw / 2) (ih / 2) (numParticles p) 0 ?ini"
  have p0: "paired (sp_heap ?ini) (sp_next ?ini) (sp_particles ?ini) (sp_bodies ?ini)"
    by (simp add: paired_def)
  have pr: "paired (sp_heap ?st) (sp_next ?st) (sp_particles ?st) (sp_bodies ?st)"
    by (rule spawn_paired [OF p0])
  have w: "sp_world ?st = w\<lparr> bodies := bodies w @ [next_body s ..< next_body s + numParticles p],
                             contactmaterials := contactmaterials w @
                                        [\<lparr> cm_first = particleMaterial, cm_second = particleMaterial,
                                           cm_friction = 0.01, cm_restitution = 0.3 \<rparr>] \<rparr>"
    by (rule world.equality)
       (simp_all add: spawn_world_bodies spawn_contactmaterials spawn_world_gravity
          addContactMaterial_def)
  have eq: "createParticles p rnd iw ih s =
              s\<lparr> worldRef := Some (sp_world ?st), body_heap := sp_heap ?st,
                 next_body := sp_next ?st, particlesRef := sp_particles ?st,
                 bodiesRef := sp_bodies ?st \<rparr>"
    using assms by (simp add: createParticles_def Let_def)
  have pr': "paired (sp_heap ?st) (next_body s + numParticles p) (sp_particles ?st)
               [next_body s ..< next_body s + numParticles p]"
    using pr by (simp add: spawn_next spawn_bodies)
  have old: "\<forall>a < next_body s. sp_heap ?st a = body_heap s a"
    by (simp add: spawn_heap_old)
  have eq': "createParticles p rnd iw ih s =
             s\<lparr> worldRef := Some (w\<lparr> bodies := bodies w @ [next_body s ..< next_body s + numParticles p],
                                     contactmaterials := contactmaterials w @
                                        [\<lparr> cm_first = particleMaterial, cm_second = particleMaterial,
                                           cm_friction = 0.01, cm_restitution = 0.3 \<rparr>] \<rparr>),
                body_heap := sp_heap ?st, next_body := next_body s + numParticles p,
                particlesRef := sp_particles ?st,
                bodiesRef := [next_body s ..< next_body s + numParticles p] \<rparr>"
    unfolding eq w by (simp add: spawn_next spawn_bodies)
  show ?thesis
    using eq' old pr' by blast
qed

lemma paired_length: "paired h n ms bs \<Longrightarrow> length ms = length bs"
  by (simp add: paired_def list_all2_lengthD)

lemma paired_nth:
  "paired h n ms bs \<Longrightarrow> i < length bs \<Longrightarrow>
     bs ! i < n \<and> mesh_position (ms ! i) = position (h (bs ! i)) \<and> mass (h (bs ! i)) = 1
     \<and> body_material (h (bs ! i)) = particleMaterial"
  by (simp add: paired_def list_all2_conv_all_nth)

lemma mount_facts:
  assumes "canvasRef s0"
  shows "bodiesRef (mount rnd iw ih s0) = [next_body s0 ..< next_body s0 + numParticles (props s0)]"
    and "paired (body_heap (mount rnd iw ih s0)) (next_body s0 + numParticles (props s0))
           (particlesRef (mount rnd iw ih s0)) (bodiesRef (mount rnd iw ih s0))"
    and "worldRef (mount rnd iw ih s0) =
           Some \<lparr> gravity = Vec3 0 (- 1000) 0,
                  bodies = [next_body s0 ..< next_body s0 + numParticles (props s0)] @
                    [next_body s0 + numParticles (props s0),
                     Suc (next_body s0 + numParticles (props s0)),
                     Suc (Suc (next_body s0 + numParticles (props s0))),
                     Suc (Suc (Suc (next_body s0 + numParticles (props s0))))],
                  contactmaterials =
                    \<lparr> cm_first = particleMaterial, cm_second = particleMaterial,
                      cm_friction = 0.01, cm_restitution = 0.3 \<rparr> #
                    (if numParticles (props s0) = 0 then []
                     else [\<lparr> cm_first = particleMaterial, cm_second = boundaryMaterial,
                             cm_friction = 0, cm_restitution = 0.5 \<rparr>]) \<rparr>"
    and "next_body (mount rnd iw ih s0) = next_body s0 + numParticles (props s0) + 4"
    and "cameraRef (mount rnd iw ih s0)" and "rendererRef (mount rnd iw ih s0)"
    and "sceneRef (mount rnd iw ih s0)"
    and "props (mount rnd iw ih s0) = props s0"
    and "mousePositionRef (mount rnd iw ih s0) = mousePositionRef s0"
proof -
  let ?n = "next_body s0" and ?k = "numParticles (props s0)"
  let ?w0 = "\<lparr> gravity = Vec3 0 (- 1000) 0, bodies = [], contactmaterials = [] \<rparr>"
  let ?s1 = "s0\<lparr> worldRef := Some ?w0, sceneRef := True, rendererRef := True, cameraRef := True \<rparr>"
  let ?pp = "\<lparr> cm_first = particleMaterial, cm_second = particleMaterial,
               cm_friction = 0.01, cm_restitution = 0.3 \<rparr>"
  let ?w1 = "?w0\<lparr> bodies := bodies ?w0 @ [next_body ?s1 ..< next_body ?s1 + ?k],
                   contactmaterials := contactmaterials ?w0 @ [?pp] \<rparr>"
  obtain h ms where
    cp: "createParticles (props s0) rnd iw ih ?s1 =
           ?s1\<lparr> worldRef := Some ?w1, body_heap := h, next_body := next_body ?s1 + ?k,
                 particlesRef := ms, bodiesRef := [next_body ?s1 ..< next_body ?s1 + ?k] \<rparr>"
    and pr: "paired h (next_body ?s1 + ?k) ms [next_body ?s1 ..< next_body ?s1 + ?k]"
    using createParticles_Some [of ?s1 ?w0 "props s0" rnd iw ih] by auto
  let ?s2 = "?s1\<lparr> worldRef := Some ?w1, body_heap := h, next_body := next_body ?s1 + ?k,
                 particlesRef := ms, bodiesRef := [next_body ?s1 ..< next_body ?s1 + ?k] \<rparr>"
  have m: "mount rnd iw ih s0 = createBoundaries iw ih ?s2"
    using assms by (simp add: mount_def Let_def cp)
  have w2: "worldRef ?s2 = Some ?w1" by simp
  note cb = createBoundaries_Some [OF w2, of iw ih]
  show "bodiesRef (mount rnd iw ih s0) = [?n ..< ?n + ?k]"
    unfolding m cb by simp
  show "next_body (mount rnd iw ih s0) = ?n + ?k + 4"
    unfolding m cb by simp
  show "cameraRef (mount rnd iw ih s0)" "rendererRef (mount rnd iw ih s0)"
    "sceneRef (mount rnd iw ih s0)" "props (mount rnd iw ih s0) = props s0"
    "mousePositionRef (mount rnd iw ih s0) = mousePositionRef s0"
    unfolding m cb by simp_all
  have pr': "paired h (?n + ?k) ms [?n ..< ?n + ?k]" using pr by simp
  show "paired (body_heap (mount rnd iw ih s0)) (?n + ?k)
           (particlesRef (mount rnd iw ih s0)) (bodiesRef (mount rnd iw ih s0))"
    unfolding m cb using pr' by (auto intro: paired_mono)
  have mat: "?k \<noteq> 0 \<Longrightarrow> body_material (h ?n) = particleMaterial"
    using paired_nth [OF pr', of 0] by simp
  show "worldRef (mount rnd iw ih s0) =
           Some \<lparr> gravity = Vec3 0 (- 1000) 0,
                  bodies = [?n ..< ?n + ?k] @
                    [?n + ?k, Suc (?n + ?k), Suc (Suc (?n + ?k)), Suc (Suc (Suc (?n + ?k)))],
                  contactmaterials =
                    ?pp #
                    (if ?k = 0 then []
                     else [\<lparr> cm_first = particleMaterial, cm_second = boundaryMaterial,
                             cm_friction = 0, cm_restitution = 0.5 \<rparr>]) \<rparr>"
    unfolding m cb using mat by (simp add: boundary_contact_def)
qed

section \<open>Resizing\<close>

subsection \<open>The removal loop\<close>

lemma remove1_nth_distinct:
  "distinct xs \<Longrightarrow> n < length xs \<Longrightarrow> remove1 (xs ! n) xs = take n xs @ drop (Suc n) xs"
proof (induction xs arbitrary: n)
  case Nil
  then show ?case by simp
next
  case (Cons x xs)
  show ?case
  proof (cases n)
    case 0
    then show ?thesis by simp
  next
    case (Suc m)
    with Cons.prems have "xs ! m \<in> set xs" by simp
    with Cons.prems have "x \<noteq> xs ! m" by auto
    with Cons Suc show ?thesis by simp
  qed
qed

lemma remove_old_fields:
  "gravity (remove_old pb n w) = gravity w"
  "contactmaterials (remove_old pb n w) = contactmaterials w"
  by (induction n arbitrary: w) (simp_all add: Let_def removeBody_def)

lemma remove_old_bodies:
  "distinct (bodies w) \<Longrightarrow> n \<le> length (bodies w) \<Longrightarrow>
     bodies (remove_old pb n w) = filter (\<lambda>a. a \<in> set pb) (take n (bodies w)) @ drop n (bodies w)"
proof (induction n arbitrary: w)
  case 0
  then show ?case by simp
next
  case (Suc n)
  let ?bs = "bodies w" and ?b = "bodies w ! n"
  have n: "n < length ?bs" using Suc.prems by simp
  have tk: "take (Suc n) ?bs = take n ?bs @ [?b]"
    using n by (simp add: take_Suc_conv_app_nth)
  show ?case
  proof (cases "?b \<in> set pb")
    case True
    have "bodies (remove_old pb (Suc n) w) = bodies (remove_old pb n w)"
      using True by (simp add: Let_def)
    also have "\<dots> = filter (\<lambda>a. a \<in> set pb) (take n ?bs) @ drop n ?bs"
      using Suc.IH [of w] Suc.prems by simp
    also have "drop n ?bs = ?b # drop (Suc n) ?bs"
      using n by (simp add: Cons_nth_drop_Suc)
    finally show ?thesis using True by (simp add: tk)
  next
    case False
    let ?w' = "removeBody ?b w"
    have bs': "bodies ?w' = take n ?bs @ drop (Suc n) ?bs"
      using remove1_nth_distinct [OF Suc.prems(1) n] by (simp add: removeBody_def)
    have d': "distinct (bodies ?w')"
      using Suc.prems(1) by (simp add: removeBody_def)
    have l': "n \<le> length (bodies ?w')" using n by (simp add: bs')
    have "bodies (remove_old pb (Suc n) w) = bodies (remove_old pb n ?w')"
      using False by (simp add: Let_def)
    also have "\<dots> = filter (\<lambda>a. a \<in> set pb) (take n (bodies ?w')) @ drop n (bodies ?w')"
      by (rule Suc.IH [OF d' l'])
    also have "take n (bodies ?w') = take n ?bs" using n by (simp add: bs')
    also have "drop n (bodies ?w') = drop (Suc n) ?bs" using n by (simp add: bs')
    finally show ?thesis using False by (simp add: tk)
  qed
qed

lemma remove_old_all:
  assumes "distinct (bodies w)"
  shows "remove_old pb (length (bodies w)) w = w\<lparr> bodies := filter (\<lambda>a. a \<in> set pb) (bodies w) \<rparr>"
  by (rule world.equality) (simp_all add: remove_old_fields remove_old_bodies [OF assms])

subsection \<open>handleResize, unfolded\<close>

lemma wf_simD:
  assumes "wf_sim s"
  shows "\<exists>w. worldRef s = Some w \<and> cameraRef s \<and> rendererRef s \<and> distinct (bodies w)
           \<and> (\<forall>a \<in> set (bodies w). a < next_body s)
           \<and> (\<forall>a \<in> set (bodiesRef s). a < next_body s)"
  using assms by (auto simp: wf_sim_def list_all_iff split: option.splits)

lemma handleResize_wf:
  assumes "wf_sim s" and "worldRef s = Some w"
  shows "handleResize bw bh s =
           s\<lparr> worldRef := Some (w\<lparr> bodies := filter (\<lambda>a. a \<in> set (bodiesRef s)) (bodies w) @
                                      [next_body s, Suc (next_body s), Suc (Suc (next_body s)),
                                       Suc (Suc (Suc (next_body s)))],
                                   contactmaterials := contactmaterials w @
                                     (if bodiesRef s = [] then [] else [boundary_contact s]) \<rparr>),
              body_heap := (body_heap s)
                (next_body s := wall 0 (bh / 2 + 25) bw 50,
                 Suc (next_body s) := wall 0 (- (bh / 2) - 25) bw 50,
                 Suc (Suc (next_body s)) := wall (- (bw / 2) - 25) 0 50 bh,
                 Suc (Suc (Suc (next_body s))) := wall (bw / 2 + 25) 0 50 bh),
              next_body := Suc (Suc (Suc (Suc (next_body s)))) \<rparr>"
proof -
  from wf_simD [OF assms(1)] assms(2)
  have c: "cameraRef s" "rendererRef s" and d: "distinct (bodies w)"
    by auto
  let ?w' = "w\<lparr> bodies := filter (\<lambda>a. a \<in> set (bodiesRef s)) (bodies w) \<rparr>"
  let ?s' = "s\<lparr> worldRef := Some ?w' \<rparr>"
  have "handleResize bw bh s = createBoundaries bw bh ?s'"
    using c assms(2) by (simp add: handleResize_def remove_old_all [OF d])
  also have "\<dots> = ?s'\<lparr> worldRef := Some (?w'\<lparr> bodies := bodies ?w' @
                                      [next_body ?s', Suc (next_body ?s'), Suc (Suc (next_body ?s')),
                                       Suc (Suc (Suc (next_body ?s')))],
                                   contactmaterials := contactmaterials ?w' @
                                     (if bodiesRef ?s' = [] then [] else [boundary_contact ?s']) \<rparr>),
              body_heap := (body_heap ?s')
                (next_body ?s' := wall 0 (bh / 2 + 25) bw 50,
                 Suc (next_body ?s') := wall 0 (- (bh / 2) - 25) bw 50,
                 Suc (Suc (next_body ?s')) := wall (- (bw / 2) - 25) 0 50 bh,
                 Suc (Suc (Suc (next_body ?s'))) := wall (bw / 2 + 25) 0 50 bh),
              next_body := Suc (Suc (Suc (Suc (next_body ?s')))) \<rparr>"
    by (rule createBoundaries_Some) simp
  finally show ?thesis by (simp add: boundary_contact_def)
qed

lemma handleResize_preserves_wf:
  assumes "wf_sim s"
  shows "wf_sim (handleResize bw bh s)"
proof -
  from wf_simD [OF assms] obtain w where w: "worldRef s = Some w"
    and c: "cameraRef s" "rendererRef s"
    and d: "distinct (bodies w)" and lt: "\<forall>a \<in> set (bodies w). a < next_body s"
    and ltp: "\<forall>a \<in> set (bodiesRef s). a < next_body s"
    by blast
  show ?thesis
    unfolding handleResize_wf [OF assms w]
    using c d lt ltp
    by (fastforce simp: wf_sim_def list_all_iff)
qed

subsection \<open>Boundaries after a resize\<close>

lemma handleResize_boundaries:
  assumes "wf_sim s"
  shows "world_bodies (handleResize bw bh s) = particle_refs s @ boundary_refs (handleResize bw bh s)"
    and "boundary_refs (handleResize bw bh s) =
           [next_body s, Suc (next_body s), Suc (Suc (next_body s)), Suc (Suc (Suc (next_body s)))]"
    and "boundary_bodies (handleResize bw bh s) =
           [wall 0 (bh / 2 + 50 / 2) bw 50, wall 0 (- (bh / 2) - 50 / 2) bw 50,
            wall (- (bw / 2) - 50 / 2) 0 50 bh, wall (bw / 2 + 50 / 2) 0 50 bh]"
    and "bodiesRef (handleResize bw bh s) = bodiesRef s"
    and "particle_bodies (handleResize bw bh s) = particle_bodies s"
    and "particle_refs (handleResize bw bh s) = particle_refs s"
    and "particlesRef (handleResize bw bh s) = particlesRef s"
proof -
  from wf_simD [OF assms] obtain w where w: "worldRef s = Some w"
    and lt: "\<forall>a \<in> set (bodies w). a < next_body s"
    and ltp: "\<forall>a \<in> set (bodiesRef s). a < next_body s"
    by blast
  note hr = handleResize_wf [OF assms w, of bw bh]
  have fresh: "next_body s \<notin> set (bodiesRef s)" "Suc (next_body s) \<notin> set (bodiesRef s)"
    "Suc (Suc (next_body s)) \<notin> set (bodiesRef s)"
    "Suc (Suc (Suc (next_body s))) \<notin> set (bodiesRef s)"
    using ltp by fastforce+
  have ff: "filter (\<lambda>a. a \<notin> set (bodiesRef s)) (filter (\<lambda>a. a \<in> set (bodiesRef s)) (bodies w)) = []"
    by (simp add: filter_empty_conv)
  have ff2: "filter (\<lambda>a. a \<in> set (bodiesRef s)) (filter (\<lambda>a. a \<in> set (bodiesRef s)) (bodies w))
               = filter (\<lambda>a. a \<in> set (bodiesRef s)) (bodies w)"
    by simp
  show br: "boundary_refs (handleResize bw bh s) =
           [next_body s, Suc (next_body s), Suc (Suc (next_body s)), Suc (Suc (Suc (next_body s)))]"
    unfolding hr using fresh by (simp add: boundary_refs_def world_bodies_def ff)
  show "world_bodies (handleResize bw bh s) = particle_refs s @ boundary_refs (handleResize bw bh s)"
    unfolding br unfolding hr by (simp add: world_bodies_def particle_refs_def w)
  show "boundary_bodies (handleResize bw bh s) =
           [wall 0 (bh / 2 + 50 / 2) bw 50, wall 0 (- (bh / 2) - 50 / 2) bw 50,
            wall (- (bw / 2) - 50 / 2) 0 50 bh, wall (bw / 2 + 50 / 2) 0 50 bh]"
    unfolding boundary_bodies_def br unfolding hr by simp
  show "bodiesRef (handleResize bw bh s) = bodiesRef s"
    and "particlesRef (handleResize bw bh s) = particlesRef s"
    unfolding hr by simp_all
  show "particle_bodies (handleResize bw bh s) = particle_bodies s"
    unfolding hr using ltp by (auto simp: particle_bodies_def)
  show "particle_refs (handleResize bw bh s) = particle_refs s"
    unfolding hr using fresh by (simp add: particle_refs_def world_bodies_def w ff2)
qed

text \<open>
  Claim C7. In a set-up component, a resize to \<open>(bw, bh)\<close> keeps of the world's bodies
  exactly the particle bodies and adds four bodies: they are the boundaries of the world
  afterwards, static (mass 0), at top \<open>(0, bh/2 + 25)\<close> with size \<open>(bw, 50)\<close>, bottom
  mirrored, left \<open>(- bw/2 - 25, 0)\<close> with size \<open>(50, bh)\<close>, right mirrored. A second resize
  with the same dimensions gives the same four boundaries, and the particle bodies (their
  number, order and fields, so their positions) are as before.
\<close>

theorem handleResize_rebuilds_boundaries:
  assumes "wf_sim s"
  shows "let s1 = handleResize bw bh s; s2 = handleResize bw bh s1
         in world_bodies s1 = particle_refs s @ boundary_refs s1
          \<and> length (boundary_refs s1) = 4
          \<and> boundary_bodies s1 =
              [wall 0 (bh / 2 + 50 / 2) bw 50, wall 0 (- (bh / 2) - 50 / 2) bw 50,
               wall (- (bw / 2) - 50 / 2) 0 50 bh, wall (bw / 2 + 50 / 2) 0 50 bh]
          \<and> list_all (\<lambda>b. mass b = 0) (boundary_bodies s1)
          \<and> boundary_bodies s2 = boundary_bodies s1
          \<and> length (boundary_refs s2) = 4
          \<and> bodiesRef s1 = bodiesRef s \<and> particle_bodies s1 = particle_bodies s
          \<and> particle_refs s1 = particle_refs s
          \<and> bodiesRef s2 = bodiesRef s \<and> particle_bodies s2 = particle_bodies s
          \<and> particle_refs s2 = particle_refs s"
proof -
  have wf1: "wf_sim (handleResize bw bh s)"
    by (rule handleResize_preserves_wf [OF assms])
  note a = handleResize_boundaries [OF assms, of bw bh]
  note b = handleResize_boundaries [OF wf1, of bw bh]
  have m: "list_all (\<lambda>b. mass b = 0) (boundary_bodies (handleResize bw bh s))"
    unfolding a(3) by (simp add: wall_def new_body_def)
  show ?thesis
    unfolding Let_def
    using a(1) m by (simp add: a(2-) b(2-))
qed

lemma wf_scenario_sim: "wf_sim (scenario_sim d)"
  by (simp add: wf_sim_def scenario_sim_def)

lemma particle_bodies_scenario:
  "particle_bodies (scenario_sim d) = [particle_at 0 0, particle_at d 0]"
  by (simp add: particle_bodies_def scenario_sim_def scenario_heap_def)

theorem handleResize_rebuilds_boundaries_witness:
  "wf_sim (handleResize 800 600 (scenario_sim 100))
   \<and> boundary_bodies (handleResize 800 600 (scenario_sim 100)) =
       [wall 0 325 800 50, wall 0 (- 325) 800 50, wall (- 425) 0 50 600, wall 425 0 50 600]
   \<and> boundary_bodies (handleResize 1200 800 (handleResize 800 600 (scenario_sim 100))) =
       [wall 0 425 1200 50, wall 0 (- 425) 1200 50, wall (- 625) 0 50 800, wall 625 0 50 800]
   \<and> boundary_bodies
        (handleResize 1200 800 (handleResize 1200 800 (handleResize 800 600 (scenario_sim 100)))) =
       [wall 0 425 1200 50, wall 0 (- 425) 1200 50, wall (- 625) 0 50 800, wall 625 0 50 800]
   \<and> particle_bodies
        (handleResize 1200 800 (handleResize 1200 800 (handleResize 800 600 (scenario_sim 100)))) =
       [particle_at 0 0, particle_at 100 0]"
proof -
  have wf0: "wf_sim (scenario_sim 100)" by (rule wf_scenario_sim)
  have wf1: "wf_sim (handleResize 800 600 (scenario_sim 100))"
    by (rule handleResize_preserves_wf [OF wf0])
  have p1: "particle_bodies (handleResize 800 600 (scenario_sim 100)) = [particle_at 0 0, particle_at 100 0]"
    by (simp add: handleResize_boundaries [OF wf0] particle_bodies_scenario)
  have b1: "boundary_bodies (handleResize 800 600 (scenario_sim 100)) =
       [wall 0 325 800 50, wall 0 (- 325) 800 50, wall (- 425) 0 50 600, wall 425 0 50 600]"
    by (simp add: handleResize_boundaries [OF wf0])
  show ?thesis
    using handleResize_rebuilds_boundaries [OF wf1, of 1200 800] wf1 p1 b1
    by (simp add: Let_def)
qed

subsection \<open>Contact materials\<close>

lemma handleResize_boundary_contacts:
  assumes "wf_sim s"
  shows "boundary_contacts (handleResize bw bh s) =
           boundary_contacts s @ (if bodiesRef s = [] then [] else [boundary_contact s])"
proof -
  from wf_simD [OF assms] obtain w where w: "worldRef s = Some w" by blast
  show ?thesis
    unfolding handleResize_wf [OF assms w]
    by (simp add: boundary_contacts_def w boundary_contact_def boundaryMaterial_def)
qed

lemma handleResize_funpow_wf:
  "wf_sim s \<Longrightarrow> wf_sim ((handleResize bw bh ^^ k) s)"
  by (induction k) (simp_all add: handleResize_preserves_wf)

lemma handleResize_funpow_bodiesRef:
  "wf_sim s \<Longrightarrow> bodiesRef ((handleResize bw bh ^^ k) s) = bodiesRef s"
  by (induction k) (simp_all add: handleResize_boundaries handleResize_funpow_wf)

lemma handleResize_funpow_contacts:
  "wf_sim s \<Longrightarrow>
     length (boundary_contacts ((handleResize bw bh ^^ k) s)) =
       length (boundary_contacts s) + (if bodiesRef s = [] then 0 else k)"
  by (induction k)
     (simp_all add: handleResize_boundary_contacts handleResize_funpow_wf
        handleResize_funpow_bodiesRef)

lemma mount_wf:
  assumes "canvasRef s0"
  shows "wf_sim (mount rnd iw ih s0)"
  using mount_facts [OF assms, of rnd iw ih]
  by (auto simp: wf_sim_def list_all_iff)

lemma mount_boundary_contacts:
  assumes "canvasRef s0"
  shows "boundary_contacts (mount rnd iw ih s0) =
           (if numParticles (props s0) = 0 then []
            else [\<lparr> cm_first = particleMaterial, cm_second = boundaryMaterial,
                    cm_friction = 0, cm_restitution = 0.5 \<rparr>])"
  using mount_facts(3) [OF assms, of rnd iw ih]
  by (simp add: boundary_contacts_def boundaryMaterial_def particleMaterial_def)

text \<open>
  Claim C8, as amended. Every boundary rebuild of a set-up component with at least one
  particle registers one more contact material against the boundary material (friction 0,
  restitution 0.5): the set-up registers one, and after \<open>k\<close> rebuilds there are \<open>k\<close> more.
  With no particle none is registered.
\<close>

theorem boundary_contact_per_rebuild:
  assumes "wf_sim s"
  shows "boundary_contacts (handleResize bw bh s) =
           boundary_contacts s @ (if bodiesRef s = [] then [] else [boundary_contact s])
       \<and> cm_second (boundary_contact s) = boundaryMaterial
       \<and> cm_friction (boundary_contact s) = 0 \<and> cm_restitution (boundary_contact s) = 0.5
       \<and> length (boundary_contacts ((handleResize bw bh ^^ k) s)) =
           length (boundary_contacts s) + (if bodiesRef s = [] then 0 else k)
       \<and> length (boundary_contacts (mount rnd iw ih initial_sim)) = 1
       \<and> length (boundary_contacts ((handleResize bw bh ^^ k) (mount rnd iw ih initial_sim))) = 1 + k"
proof -
  have c: "canvasRef initial_sim" by (simp add: initial_sim_def)
  have n: "numParticles (props initial_sim) = 1000"
    by (simp add: initial_sim_def default_params_def)
  have m1: "length (boundary_contacts (mount rnd iw ih initial_sim)) = 1"
    by (simp add: mount_boundary_contacts [OF c] n)
  have ne: "bodiesRef (mount rnd iw ih initial_sim) \<noteq> []"
    by (simp add: mount_facts(1) [OF c] n)
  have mk: "length (boundary_contacts ((handleResize bw bh ^^ k) (mount rnd iw ih initial_sim))) = 1 + k"
    using handleResize_funpow_contacts [OF mount_wf [OF c, of rnd iw ih],
        where bw = bw and bh = bh and k = k] m1 ne
    by simp
  show ?thesis
    using handleResize_boundary_contacts [OF assms, where bw = bw and bh = bh]
      handleResize_funpow_contacts [OF assms, where bw = bw and bh = bh and k = k] m1 mk
    by (simp add: boundary_contact_def)
qed

theorem boundary_contact_per_rebuild_witness:
  "wf_sim (scenario_sim 100)
   \<and> boundary_contacts (scenario_sim 100) = []
   \<and> boundary_contacts (handleResize 800 600 (scenario_sim 100)) =
       [\<lparr> cm_first = particleMaterial, cm_second = boundaryMaterial, cm_friction = 0,
          cm_restitution = 0.5 \<rparr>]
   \<and> length (boundary_contacts ((handleResize 800 600 ^^ 3) (scenario_sim 100))) = 3"
proof -
  have e: "boundary_contacts (scenario_sim 100) = []"
    by (simp add: boundary_contacts_def scenario_sim_def)
  have ne: "bodiesRef (scenario_sim 100) \<noteq> []"
    by (simp add: scenario_sim_def)
  have bc: "boundary_contact (scenario_sim 100) =
              \<lparr> cm_first = particleMaterial, cm_second = boundaryMaterial, cm_friction = 0,
                cm_restitution = 0.5 \<rparr>"
    by (simp add: boundary_contact_def scenario_sim_def scenario_heap_def particle_at_def
        new_body_def)
  show ?thesis
    using boundary_contact_per_rebuild [OF wf_scenario_sim [of 100], where bw = 800
        and bh = 600 and k = 3 and rnd = "\<lambda>_. 0" and iw = 800 and ih = 600]
    by (simp add: wf_scenario_sim e ne bc)
qed

text \<open>The set-up followed by one resize: two contact materials stand against the boundary
  material.\<close>

theorem boundary_contact_twice_counterexample:
  "length (boundary_contacts (handleResize 1200 800 (mount (\<lambda>_. 0) 800 600 initial_sim))) = 2
   \<and> \<not> length (boundary_contacts (handleResize 1200 800 (mount (\<lambda>_. 0) 800 600 initial_sim)))
         \<le> 1"
proof -
  have c: "canvasRef initial_sim" by (simp add: initial_sim_def)
  have n: "numParticles (props initial_sim) = 1000"
    by (simp add: initial_sim_def default_params_def)
  have "bodiesRef (mount (\<lambda>_. 0) 800 600 initial_sim) \<noteq> []"
    by (simp add: mount_facts(1) [OF c] n)
  then show ?thesis
    by (simp add: handleResize_boundary_contacts [OF mount_wf [OF c]]
        mount_boundary_contacts [OF c] n)
qed

subsection \<open>Invariants of the component\<close>

lemma animate_preserves_wf: "wf_sim s \<Longrightarrow> wf_sim (animate p eng time s)"
  by (auto simp: wf_sim_def animate_fields split: option.splits)

lemma handleMouseMove_fields:
  "worldRef (handleMouseMove cx cy rl rt iw ih s) = worldRef s"
  "bodiesRef (handleMouseMove cx cy rl rt iw ih s) = bodiesRef s"
  "next_body (handleMouseMove cx cy rl rt iw ih s) = next_body s"
  "cameraRef (handleMouseMove cx cy rl rt iw ih s) = cameraRef s"
  "rendererRef (handleMouseMove cx cy rl rt iw ih s) = rendererRef s"
  by (simp_all add: handleMouseMove_def Let_def)

lemma reachable_wf: "reachable s \<Longrightarrow> wf_sim s"
proof (induction rule: reachable.induct)
  case (r_mount rnd innerWidth innerHeight)
  show ?case by (rule mount_wf) (simp add: initial_sim_def)
next
  case (r_frame s eng time)
  then show ?case by (simp add: animate_preserves_wf)
next
  case (r_resize s innerWidth innerHeight)
  then show ?case by (simp add: handleResize_preserves_wf)
next
  case (r_mouse s clientX clientY rectLeft rectTop innerWidth innerHeight)
  then show ?case by (auto simp: wf_sim_def handleMouseMove_fields split: option.splits)
next
  case (r_radius s v)
  then show ?case by (auto simp: wf_sim_def setAttractionRadius_def split: option.splits)
next
  case (r_strength s v)
  then show ?case by (auto simp: wf_sim_def setAttractionStrength_def split: option.splits)
qed

lemma reachable_gravity:
  "reachable s \<Longrightarrow> \<exists>w. worldRef s = Some w \<and> gravity w = Vec3 0 (- 1000) 0"
proof (induction rule: reachable.induct)
  case (r_mount rnd innerWidth innerHeight)
  have c: "canvasRef initial_sim" by (simp add: initial_sim_def)
  show ?case by (simp add: mount_facts(3) [OF c])
next
  case (r_frame s eng time)
  then show ?case by (simp add: animate_fields)
next
  case (r_resize s innerWidth innerHeight)
  then obtain w where w: "worldRef s = Some w" and g: "gravity w = Vec3 0 (- 1000) 0" by blast
  have wf: "wf_sim s" by (rule reachable_wf [OF r_resize.hyps])
  show ?case unfolding handleResize_wf [OF wf w] using g by simp
next
  case (r_mouse s clientX clientY rectLeft rectTop innerWidth innerHeight)
  then show ?case by (simp add: handleMouseMove_fields)
next
  case (r_radius s v)
  then show ?case by (simp add: setAttractionRadius_def)
next
  case (r_strength s v)
  then show ?case by (simp add: setAttractionStrength_def)
qed

lemma mount_particle_mass:
  assumes "canvasRef s0"
  shows "list_all (\<lambda>b. mass b = 1) (particle_bodies (mount rnd iw ih s0))"
proof -
  note f = mount_facts [OF assms, of rnd iw ih]
  have "\<forall>i < length (bodiesRef (mount rnd iw ih s0)).
          mass (body_heap (mount rnd iw ih s0) (bodiesRef (mount rnd iw ih s0) ! i)) = 1"
    using paired_nth [OF f(2)] by blast
  then show ?thesis
    by (simp add: particle_bodies_def list_all_length)
qed

text \<open>
  Claim C10. The effect sets the world's gravity to \<open>(0, -1000, 0)\<close>, a vector of
  magnitude 1000 pointing down, and in every state the component reaches afterwards the
  world still has that gravity; every frame steps the physics under it. The particles are
  created with mass 1.
\<close>

theorem gravity_constant:
  assumes "reachable s"
  shows "\<exists>w. worldRef s = Some w \<and> gravity w = Vec3 0 (- 1000) 0 \<and> vnorm (gravity w) = 1000
           \<and> body_heap (animate p eng time s) =
               applyForces p (mousePositionRef s) (bodiesRef s)
                 (clearForces (bodies w)
                    (eng (Vec3 0 (- 1000) 0) (deltaTime (prevTimeRef s) time) (bodies w)
                       (body_heap s)))
           \<and> list_all (\<lambda>b. mass b = 1) (particle_bodies (mount rnd iw ih initial_sim))"
proof -
  from reachable_gravity [OF assms] obtain w
    where w: "worldRef s = Some w" and g: "gravity w = Vec3 0 (- 1000) 0" by blast
  have n: "vnorm (gravity w) = 1000"
    unfolding g using sqrt_square_nonneg [of 1000] by (simp add: vnorm_def)
  have h: "body_heap (animate p eng time s) =
               applyForces p (mousePositionRef s) (bodiesRef s)
                 (clearForces (bodies w)
                    (eng (Vec3 0 (- 1000) 0) (deltaTime (prevTimeRef s) time) (bodies w)
                       (body_heap s)))"
    by (simp add: animate_heap [OF w] world_step_def g)
  have m: "list_all (\<lambda>b. mass b = 1) (particle_bodies (mount rnd iw ih initial_sim))"
    by (rule mount_particle_mass) (simp add: initial_sim_def)
  show ?thesis using w g n h m by blast
qed

theorem gravity_constant_witness:
  "reachable (handleResize 1200 800 (mount (\<lambda>_. 0) 800 600 initial_sim))
   \<and> (\<exists>w. worldRef (handleResize 1200 800 (mount (\<lambda>_. 0) 800 600 initial_sim)) = Some w
         \<and> gravity w = Vec3 0 (- 1000) 0 \<and> vnorm (gravity w) = 1000)"
proof -
  have r: "reachable (handleResize 1200 800 (mount (\<lambda>_. 0) 800 600 initial_sim))"
    by (intro reachable.intros)
  show ?thesis
    using gravity_constant [OF r] r by blast
qed

section \<open>The order of a frame\<close>

subsection \<open>What the loops of a frame touch\<close>

lemma applyForce_force_update: "(applyForce f b)\<lparr>force := g\<rparr> = b\<lparr>force := g\<rparr>"
  by (simp add: applyForce_def)

lemma push_body_frame: "(push_body p m a h c)\<lparr>force := g\<rparr> = (h c)\<lparr>force := g\<rparr>"
  by (simp add: push_body_def applyForce_force_update split: option.splits)

lemma push_all_frame: "(push_all p m ids h c)\<lparr>force := g\<rparr> = (h c)\<lparr>force := g\<rparr>"
  by (induction ids arbitrary: h) (simp_all add: push_body_frame)

lemma attract_pair_frame: "(attract_pair p a b h c)\<lparr>force := g\<rparr> = (h c)\<lparr>force := g\<rparr>"
  by (simp add: attract_pair_def Let_def applyForce_force_update split: option.splits)

lemma attract_inner_frame: "(attract_inner p a bs h c)\<lparr>force := g\<rparr> = (h c)\<lparr>force := g\<rparr>"
  by (induction bs arbitrary: h) (simp_all add: attract_pair_frame)

lemma attract_outer_frame: "(attract_outer p ids h c)\<lparr>force := g\<rparr> = (h c)\<lparr>force := g\<rparr>"
  by (induction ids arbitrary: h) (simp_all add: attract_inner_frame)

lemma applyForces_frame: "(applyForces p m ids h c)\<lparr>force := g\<rparr> = (h c)\<lparr>force := g\<rparr>"
  by (simp add: applyForces_def attract_outer_frame push_all_frame)

lemma force_update_fields:
  assumes "b\<lparr>force := g\<rparr> = b'\<lparr>force := g\<rparr>"
  shows "position b = position b'" and "velocity b = velocity b'" and "mass b = mass b'"
    and "quaternion_z b = quaternion_z b'"
proof -
  have "position (b\<lparr>force := g\<rparr>) = position (b'\<lparr>force := g\<rparr>)"
    "velocity (b\<lparr>force := g\<rparr>) = velocity (b'\<lparr>force := g\<rparr>)"
    "mass (b\<lparr>force := g\<rparr>) = mass (b'\<lparr>force := g\<rparr>)"
    "quaternion_z (b\<lparr>force := g\<rparr>) = quaternion_z (b'\<lparr>force := g\<rparr>)"
    using assms by simp_all
  then show "position b = position b'" and "velocity b = velocity b'" and "mass b = mass b'"
    and "quaternion_z b = quaternion_z b'"
    by simp_all
qed

lemma applyForces_fields:
  "position (applyForces p m ids h c) = position (h c)"
  "velocity (applyForces p m ids h c) = velocity (h c)"
  "mass (applyForces p m ids h c) = mass (h c)"
  "quaternion_z (applyForces p m ids h c) = quaternion_z (h c)"
  using force_update_fields [OF applyForces_frame [where g = vzero and p = p and m = m
      and ids = ids and h = h and c = c]] by simp_all

lemma applyForces_other: "c \<notin> set ids \<Longrightarrow> applyForces p m ids h c = h c"
proof -
  have pb: "\<And>a h. a \<noteq> c \<Longrightarrow> push_body p m a h c = h c"
    by (simp add: push_body_def split: option.splits)
  have pa: "\<And>h. c \<notin> set ids \<Longrightarrow> push_all p m ids h c = h c"
    by (induction ids) (auto simp: pb)
  have ap: "\<And>a b h. a \<noteq> c \<Longrightarrow> b \<noteq> c \<Longrightarrow> attract_pair p a b h c = h c"
    by (simp add: attract_pair_def Let_def split: option.splits)
  have ai: "\<And>a bs h. a \<noteq> c \<Longrightarrow> c \<notin> set bs \<Longrightarrow> attract_inner p a bs h c = h c"
  proof -
    fix a bs h show "a \<noteq> c \<Longrightarrow> c \<notin> set bs \<Longrightarrow> attract_inner p a bs h c = h c"
      by (induction bs arbitrary: h) (auto simp: ap)
  qed
  have ao: "\<And>h. c \<notin> set ids \<Longrightarrow> attract_outer p ids h c = h c"
  proof -
    fix h show "c \<notin> set ids \<Longrightarrow> attract_outer p ids h c = h c"
      by (induction ids arbitrary: h) (auto simp: ai)
  qed
  assume "c \<notin> set ids"
  then show ?thesis by (simp add: applyForces_def ao pa)
qed

lemma clearForces_frame: "(clearForces ids h c)\<lparr>force := g\<rparr> = (h c)\<lparr>force := g\<rparr>"
  by (induction ids arbitrary: h) simp_all

lemma clearForces_other: "c \<notin> set ids \<Longrightarrow> clearForces ids h c = h c"
  by (induction ids arbitrary: h) auto

lemma clearForces_force: "c \<in> set ids \<Longrightarrow> force (clearForces ids h c) = vzero"
proof (induction ids arbitrary: h)
  case Nil
  then show ?case by simp
next
  case (Cons a ids)
  show ?case
  proof (cases "c \<in> set ids")
    case True
    then show ?thesis by (simp add: Cons.IH)
  next
    case False
    with Cons.prems have "c = a" by simp
    then show ?thesis using False by (simp add: clearForces_other)
  qed
qed

lemma world_step_force: "c \<in> set (bodies w) \<Longrightarrow> force (world_step eng dt w h c) = vzero"
  by (simp add: world_step_def clearForces_force)

subsection \<open>Render Sync\<close>


lemma update_loop_nth:
  "k < length ms \<Longrightarrow>
     update_loop h bs n i ms ! k =
       (if i \<le> k \<and> k < i + n then
          (ms ! k)\<lparr> mesh_position :=
                      Vec3 (vx (position (h (bs ! k)))) (vy (position (h (bs ! k)))) 0,
                    rotation_z := quaternion_z (h (bs ! k)) \<rparr>
        else ms ! k)"
proof (induction n arbitrary: i ms)
  case 0
  then show ?case by auto
next
  case (Suc n)
  show ?case
  proof (cases "i < length ms")
    case True
    then show ?thesis
      using Suc.prems Suc.IH [of "ms[i := (ms ! i)\<lparr> mesh_position :=
                      Vec3 (vx (position (h (bs ! i)))) (vy (position (h (bs ! i)))) 0,
                    rotation_z := quaternion_z (h (bs ! i)) \<rparr>]" "Suc i"]
      by (auto simp: nth_list_update)
  next
    case False
    then show ?thesis using Suc.prems Suc.IH [of ms "Suc i"] by auto
  qed
qed

lemma animate_particles:
  assumes "worldRef s = Some w" and "i < length (bodiesRef s)" and "i < length (particlesRef s)"
  shows "mesh_position (particlesRef (animate p eng time s) ! i) =
           Vec3 (vx (position (world_step eng (deltaTime (prevTimeRef s) time) w (body_heap s)
                                 (bodiesRef s ! i))))
                (vy (position (world_step eng (deltaTime (prevTimeRef s) time) w (body_heap s)
                                 (bodiesRef s ! i)))) 0"
  using assms
  by (simp add: animate_def Let_def updateParticlePositions_def update_loop_nth
      applyForces_fields)

lemma animate_forces_first_heap:
  "worldRef s = Some w \<Longrightarrow>
     body_heap (animate_forces_first p eng time s) =
       world_step eng (deltaTime (prevTimeRef s) time) w
         (applyForces p (mousePositionRef s) (bodiesRef s) (body_heap s))"
  by (simp add: animate_forces_first_def Let_def updateParticlePositions_fields)

text \<open>
  Claim C5, as amended. Within a frame the loop calls the physics step first, then the
  Force Model, then Render Sync. The step runs on the bodies as the frame finds them and
  ends with every accumulator of the world cleared; the Force Model then writes its forces
  for the stepped positions, which moves nothing in this frame; Render Sync copies the
  stepped positions. The forces written in a frame are integrated by the step of the next
  frame.
\<close>

theorem step_before_forces:
  assumes "worldRef s = Some w"
  shows "let dt = deltaTime (prevTimeRef s) time;
             hs = world_step eng dt w (body_heap s);
             s' = animate p eng time s
         in hs = clearForces (bodies w) (eng (gravity w) dt (bodies w) (body_heap s))
          \<and> body_heap s' = applyForces p (mousePositionRef s) (bodiesRef s) hs
          \<and> (\<forall>a \<in> set (bodies w). force (hs a) = vzero)
          \<and> (\<forall>a. position (body_heap s' a) = position (hs a)
                 \<and> velocity (body_heap s' a) = velocity (hs a))
          \<and> (\<forall>i. i < length (bodiesRef s) \<and> i < length (particlesRef s) \<longrightarrow>
                 mesh_position (particlesRef s' ! i) =
                   Vec3 (vx (position (hs (bodiesRef s ! i))))
                        (vy (position (hs (bodiesRef s ! i)))) 0)
          \<and> body_heap (animate p' eng' time' s') =
              applyForces p' (mousePositionRef s) (bodiesRef s)
                (world_step eng' (deltaTime time time') w (body_heap s'))"
proof -
  let ?dt = "deltaTime (prevTimeRef s) time"
  let ?hs = "world_step eng ?dt w (body_heap s)"
  let ?s' = "animate p eng time s"
  have a: "?hs = clearForces (bodies w) (eng (gravity w) ?dt (bodies w) (body_heap s))"
    by (simp add: world_step_def)
  have b: "body_heap ?s' = applyForces p (mousePositionRef s) (bodiesRef s) ?hs"
    by (rule animate_heap [OF assms])
  have c: "\<forall>a \<in> set (bodies w). force (?hs a) = vzero"
    by (simp add: world_step_force)
  have d: "\<forall>a. position (body_heap ?s' a) = position (?hs a)
             \<and> velocity (body_heap ?s' a) = velocity (?hs a)"
    by (simp add: b applyForces_fields)
  have e: "\<forall>i. i < length (bodiesRef s) \<and> i < length (particlesRef s) \<longrightarrow>
                 mesh_position (particlesRef ?s' ! i) =
                   Vec3 (vx (position (?hs (bodiesRef s ! i))))
                        (vy (position (?hs (bodiesRef s ! i)))) 0"
    using animate_particles [OF assms] by blast
  have w': "worldRef ?s' = Some w" by (simp add: animate_fields assms)
  have f: "body_heap (animate p' eng' time' ?s') =
              applyForces p' (mousePositionRef s) (bodiesRef s)
                (world_step eng' (deltaTime time time') w (body_heap ?s'))"
    by (simp add: animate_heap [OF w'] animate_fields animate_prevTime [OF assms])
  show ?thesis
    unfolding Let_def using a b c d e f by blast
qed

subsection \<open>Two particles, two frames\<close>

lemma scenario_world:
  "worldRef (scenario_sim d) =
     Some \<lparr> gravity = Vec3 0 (- 1000) 0, bodies = [0, Suc 0], contactmaterials = [] \<rparr>"
  by (simp add: scenario_sim_def)

lemma euler_apply:
  "distinct ids \<Longrightarrow>
     euler g dt ids h c = (if c \<in> set ids then euler_body g dt (h c) else h c)"
  by (induction ids arbitrary: h) auto

lemma clearForces_apply:
  assumes "c \<in> set ids"
  shows "clearForces ids h c = (h c)\<lparr>force := vzero\<rparr>"
proof -
  have "clearForces ids h c = (clearForces ids h c)\<lparr>force := force (clearForces ids h c)\<rparr>"
    by simp
  also have "\<dots> = (clearForces ids h c)\<lparr>force := vzero\<rparr>"
    by (simp only: clearForces_force [OF assms])
  also have "\<dots> = (h c)\<lparr>force := vzero\<rparr>"
    by (rule clearForces_frame)
  finally show ?thesis .
qed

lemma world_step_euler:
  assumes "distinct (bodies w)" and "c \<in> set (bodies w)"
  shows "world_step euler dt w h c = (euler_body (gravity w) dt (h c))\<lparr>force := vzero\<rparr>"
  using assms by (simp add: world_step_def clearForces_apply euler_apply)

lemma sqrt_less_square: "0 \<le> r \<Longrightarrow> sqrt x < r \<longleftrightarrow> x < r * r"
  using real_sqrt_less_iff [of x "r * r"] by (simp add: sqrt_square_nonneg)

lemma scenario_forces_first:
  "applyForces default_params (0, 0) [0, Suc 0] (scenario_heap 100) 0 =
     (particle_at 0 0)\<lparr> force := Vec3 (5 / 2) 0 0 \<rparr>"
  by (simp add: applyForces_def push_body_def pushForce_def attract_pair_def attractForce_def
      Let_def scenario_heap_def particle_at_def new_body_def vzero_def vadd_def
      applyForce_def default_params_def sqrt_square_nonneg)

lemma scenario_stepped:
  "world_step euler (2 / 125)
       \<lparr> gravity = Vec3 0 (- 1000) 0, bodies = [0, Suc 0], contactmaterials = [] \<rparr>
       (scenario_heap 100) 0
     = (particle_at 0 (- (32 / 125)))\<lparr> velocity := Vec3 0 (- 16) 0 \<rparr>"
  "world_step euler (2 / 125)
       \<lparr> gravity = Vec3 0 (- 1000) 0, bodies = [0, Suc 0], contactmaterials = [] \<rparr>
       (scenario_heap 100) (Suc 0)
     = (particle_at 100 (- (32 / 125)))\<lparr> velocity := Vec3 0 (- 16) 0 \<rparr>"
  by (simp_all add: world_step_euler euler_body_def Let_def scenario_heap_def particle_at_def
      new_body_def vzero_def vadd_def vscale_def)

lemma scenario_forces_after_step:
  "force (applyForces default_params (0, 0) [0, Suc 0]
     (world_step euler (2 / 125)
       \<lparr> gravity = Vec3 0 (- 1000) 0, bodies = [0, Suc 0], contactmaterials = [] \<rparr>
       (scenario_heap 100)) 0) = Vec3 (5 / 2) 0 0"
  by (simp add: applyForces_def push_body_def pushForce_def attract_pair_def attractForce_def
      Let_def scenario_stepped particle_at_def new_body_def vzero_def vadd_def
      applyForce_def default_params_def sqrt_square_nonneg sqrt_less_square)

theorem step_before_forces_witness:
  "worldRef (scenario_sim 100) =
     Some \<lparr> gravity = Vec3 0 (- 1000) 0, bodies = [0, Suc 0], contactmaterials = [] \<rparr>
   \<and> body_heap (animate default_params euler 16 (scenario_sim 100)) =
       applyForces default_params (0, 0) [0, Suc 0]
         (world_step euler (2 / 125)
            \<lparr> gravity = Vec3 0 (- 1000) 0, bodies = [0, Suc 0], contactmaterials = [] \<rparr>
            (scenario_heap 100))
   \<and> force (world_step euler (2 / 125)
            \<lparr> gravity = Vec3 0 (- 1000) 0, bodies = [0, Suc 0], contactmaterials = [] \<rparr>
            (scenario_heap 100) 0) = vzero
   \<and> mesh_position (particlesRef (animate default_params euler 16 (scenario_sim 100)) ! 0)
       = Vec3 0 (- (32 / 125)) 0
   \<and> mesh_position (particlesRef (animate default_params euler 16 (scenario_sim 100)) ! Suc 0)
       = Vec3 100 (- (32 / 125)) 0"
proof -
  have dt: "deltaTime (prevTimeRef (scenario_sim 100)) 16 = 2 / 125"
    by (simp add: deltaTime_def scenario_sim_def)
  have m: "mousePositionRef (scenario_sim 100) = (0, 0)" "bodiesRef (scenario_sim 100) = [0, Suc 0]"
    "body_heap (scenario_sim 100) = scenario_heap 100"
    "length (particlesRef (scenario_sim 100)) = 2"
    by (simp_all add: scenario_sim_def)
  have "\<forall>i. i < 2 \<longrightarrow>
          mesh_position (particlesRef (animate default_params euler 16 (scenario_sim 100)) ! i) =
            Vec3 (vx (position (world_step euler (2 / 125)
                    \<lparr> gravity = Vec3 0 (- 1000) 0, bodies = [0, Suc 0], contactmaterials = [] \<rparr>
                    (scenario_heap 100) ([0, Suc 0] ! i))))
                 (vy (position (world_step euler (2 / 125)
                    \<lparr> gravity = Vec3 0 (- 1000) 0, bodies = [0, Suc 0], contactmaterials = [] \<rparr>
                    (scenario_heap 100) ([0, Suc 0] ! i)))) 0"
    and "body_heap (animate default_params euler 16 (scenario_sim 100)) =
       applyForces default_params (0, 0) [0, Suc 0]
         (world_step euler (2 / 125)
            \<lparr> gravity = Vec3 0 (- 1000) 0, bodies = [0, Suc 0], contactmaterials = [] \<rparr>
            (scenario_heap 100))"
    and "force (world_step euler (2 / 125)
            \<lparr> gravity = Vec3 0 (- 1000) 0, bodies = [0, Suc 0], contactmaterials = [] \<rparr>
            (scenario_heap 100) 0) = vzero"
    using step_before_forces [OF scenario_world [of 100], where time = 16 and eng = euler
        and p = default_params and p' = default_params and eng' = euler and time' = 32]
    by (simp_all add: Let_def dt m)
  then have
    "mesh_position (particlesRef (animate default_params euler 16 (scenario_sim 100)) ! 0) =
            Vec3 (vx (position (world_step euler (2 / 125)
                    \<lparr> gravity = Vec3 0 (- 1000) 0, bodies = [0, Suc 0], contactmaterials = [] \<rparr>
                    (scenario_heap 100) 0)))
                 (vy (position (world_step euler (2 / 125)
                    \<lparr> gravity = Vec3 0 (- 1000) 0, bodies = [0, Suc 0], contactmaterials = [] \<rparr>
                    (scenario_heap 100) 0))) 0"
    "mesh_position (particlesRef (animate default_params euler 16 (scenario_sim 100)) ! Suc 0) =
            Vec3 (vx (position (world_step euler (2 / 125)
                    \<lparr> gravity = Vec3 0 (- 1000) 0, bodies = [0, Suc 0], contactmaterials = [] \<rparr>
                    (scenario_heap 100) (Suc 0))))
                 (vy (position (world_step euler (2 / 125)
                    \<lparr> gravity = Vec3 0 (- 1000) 0, bodies = [0, Suc 0], contactmaterials = [] \<rparr>
                    (scenario_heap 100) (Suc 0)))) 0"
    "body_heap (animate default_params euler 16 (scenario_sim 100)) =
       applyForces default_params (0, 0) [0, Suc 0]
         (world_step euler (2 / 125)
            \<lparr> gravity = Vec3 0 (- 1000) 0, bodies = [0, Suc 0], contactmaterials = [] \<rparr>
            (scenario_heap 100))"
    "force (world_step euler (2 / 125)
            \<lparr> gravity = Vec3 0 (- 1000) 0, bodies = [0, Suc 0], contactmaterials = [] \<rparr>
            (scenario_heap 100) 0) = vzero"
    by force+
  then show ?thesis
    by (simp add: scenario_world scenario_stepped particle_at_def new_body_def)
qed

lemma scenario_second_frame:
  "velocity (body_heap (animate default_params euler 32
               (animate default_params euler 16 (scenario_sim 100))) 0) = Vec3 (1 / 25) (- 32) 0"
proof -
  let ?w = "\<lparr> gravity = Vec3 0 (- 1000) 0, bodies = [0, Suc 0], contactmaterials = [] \<rparr>"
  let ?s1 = "animate default_params euler 16 (scenario_sim 100)"
  let ?hs = "world_step euler (2 / 125) ?w (scenario_heap 100)"
  have dt: "deltaTime (prevTimeRef (scenario_sim 100)) 16 = 2 / 125"
    by (simp add: deltaTime_def scenario_sim_def)
  have m: "mousePositionRef (scenario_sim 100) = (0, 0)" "bodiesRef (scenario_sim 100) = [0, Suc 0]"
    "body_heap (scenario_sim 100) = scenario_heap 100"
    by (simp_all add: scenario_sim_def)
  have w1: "worldRef ?s1 = Some ?w" by (simp add: animate_fields scenario_world)
  have h1: "body_heap ?s1 = applyForces default_params (0, 0) [0, Suc 0] ?hs"
    by (simp add: animate_heap [OF scenario_world] dt m)
  have dt2: "deltaTime (prevTimeRef ?s1) 32 = 2 / 125"
    by (simp add: animate_prevTime [OF scenario_world] deltaTime_def)
  have s2: "velocity (body_heap (animate default_params euler 32 ?s1) 0) =
              velocity (euler_body (Vec3 0 (- 1000) 0) (2 / 125) (body_heap ?s1 0))"
    by (simp add: animate_heap [OF w1] dt2 applyForces_fields world_step_euler)
  have fb: "force (body_heap ?s1 0) = Vec3 (5 / 2) 0 0"
    by (simp only: h1 scenario_forces_after_step)
  have vb: "velocity (body_heap ?s1 0) = Vec3 0 (- 16) 0" and mb: "mass (body_heap ?s1 0) = 1"
    unfolding h1 by (simp_all add: applyForces_fields scenario_stepped particle_at_def new_body_def)
  show ?thesis
    unfolding s2 by (simp add: euler_body_def Let_def fb vb mb vadd_def vscale_def)
qed

text \<open>
  Two particles 100 apart at rest, two frames with the Euler engine. After the first frame
  the particle at the origin has the velocity gravity alone gives it, and the force
  \<open>(2.5, 0, 0)\<close> computed in that frame is pending; in the order of the specification
  the same frame would have given it the velocity \<open>(0.04, -16, 0)\<close>. The second frame's
  step consumes the force.
\<close>

theorem forces_after_step_counterexample:
  "velocity (body_heap (animate default_params euler 16 (scenario_sim 100)) 0) = Vec3 0 (- 16) 0
   \<and> force (body_heap (animate default_params euler 16 (scenario_sim 100)) 0) = Vec3 (5 / 2) 0 0
   \<and> velocity (body_heap (animate_forces_first default_params euler 16 (scenario_sim 100)) 0)
       = Vec3 (1 / 25) (- 16) 0
   \<and> velocity (body_heap (animate default_params euler 32
                 (animate default_params euler 16 (scenario_sim 100))) 0) = Vec3 (1 / 25) (- 32) 0
   \<and> animate default_params euler 16 (scenario_sim 100)
       \<noteq> animate_forces_first default_params euler 16 (scenario_sim 100)"
proof -
  have dt: "deltaTime (prevTimeRef (scenario_sim 100)) 16 = 2 / 125"
    by (simp add: deltaTime_def scenario_sim_def)
  have m: "mousePositionRef (scenario_sim 100) = (0, 0)" "bodiesRef (scenario_sim 100) = [0, Suc 0]"
    "body_heap (scenario_sim 100) = scenario_heap 100"
    by (simp_all add: scenario_sim_def)
  have v: "velocity (body_heap (animate default_params euler 16 (scenario_sim 100)) 0)
             = Vec3 0 (- 16) 0"
    by (simp add: animate_heap [OF scenario_world] dt m applyForces_fields scenario_stepped)
  have f: "force (body_heap (animate default_params euler 16 (scenario_sim 100)) 0)
             = Vec3 (5 / 2) 0 0"
    by (simp add: animate_heap [OF scenario_world] dt m scenario_forces_after_step)
  have v': "velocity (body_heap (animate_forces_first default_params euler 16 (scenario_sim 100)) 0)
       = Vec3 (1 / 25) (- 16) 0"
    by (simp add: animate_forces_first_heap [OF scenario_world] dt m world_step_euler
        scenario_forces_first euler_body_def Let_def particle_at_def new_body_def vzero_def
        vadd_def vscale_def)
  have ne: "animate default_params euler 16 (scenario_sim 100)
              \<noteq> animate_forces_first default_params euler 16 (scenario_sim 100)"
  proof
    assume "animate default_params euler 16 (scenario_sim 100)
              = animate_forces_first default_params euler 16 (scenario_sim 100)"
    then have "velocity (body_heap (animate default_params euler 16 (scenario_sim 100)) 0)
                 = velocity (body_heap
                     (animate_forces_first default_params euler 16 (scenario_sim 100)) 0)"
      by simp
    then show False by (simp only: v v') simp
  qed
  show ?thesis using v f v' ne scenario_second_frame by blast
qed

section \<open>The net force of a frame\<close>

text \<open>After \<^verbatim>\<open>applyForces\<close>, the accumulator of a particle holds what it held before, the
  repulsion of the pointer, and the attraction of every other particle, added in the order
  of the Body Store.\<close>

lemma vadd_vzero [simp]: "vadd a vzero = a"
  by (simp add: vadd_def vzero_def)

lemma attractForce_vz: "attractForce p a b = Some f \<Longrightarrow> vz f = 0"
  by (auto simp: attractForce_def Let_def split: if_splits)

lemma attractForce_swap_None:
  "attractForce p a b = None \<Longrightarrow> attractForce p b a = None"
proof -
  have "(vx a - vx b) * (vx a - vx b) + (vy a - vy b) * (vy a - vy b)
        = (vx b - vx a) * (vx b - vx a) + (vy b - vy a) * (vy b - vy a)"
    by (simp add: algebra_simps)
  then show "attractForce p a b = None \<Longrightarrow> attractForce p b a = None"
    by (simp add: attractForce_def Let_def split: if_splits)
qed

lemma attraction_swap: "attraction p b a = vneg (attraction p a b)"
proof -
  let ?q = "(vx b - vx a) * (vx b - vx a) + (vy b - vy a) * (vy b - vy a)"
  have q: "(vx a - vx b) * (vx a - vx b) + (vy a - vy b) * (vy a - vy b) = ?q"
    by (simp add: algebra_simps)
  have m: "vx a - vx b = - (vx b - vx a)" "vy a - vy b = - (vy b - vy a)" by simp_all
  show ?thesis
    unfolding attraction_def attractForce_def Let_def q
    by (simp add: vneg_def vzero_def m del: minus_diff_eq)
qed

lemma attract_pair_force:
  assumes "a \<noteq> b"
  shows "force (attract_pair p a b h c) =
           (if c = a then vadd (force (h a)) (attraction p (position (h a)) (position (h b)))
            else if c = b then vadd (force (h b)) (attraction p (position (h b)) (position (h a)))
            else force (h c))"
proof (cases "attractForce p (position (h a)) (position (h b))")
  case None
  then have "attraction p (position (h a)) (position (h b)) = vzero"
    and "attraction p (position (h b)) (position (h a)) = vzero"
    by (simp_all add: attraction_def attractForce_swap_None)
  then show ?thesis using None by (simp add: attract_pair_def)
next
  case (Some f)
  have z: "vz f = 0" by (rule attractForce_vz [OF Some])
  have f: "Vec3 (vx f) (vy f) 0 = f" using z by (cases f) simp
  have ab: "attraction p (position (h a)) (position (h b)) = f"
    by (simp add: attraction_def Some)
  have ba: "attraction p (position (h b)) (position (h a)) = Vec3 (- vx f) (- vy f) 0"
    unfolding attraction_swap [of p "position (h b)" "position (h a)"] ab
    using z by (simp add: vneg_def)
  show ?thesis
    using assms by (simp add: attract_pair_def Some Let_def applyForce_def f ab ba)
qed

lemma attract_pair_position: "position (attract_pair p a b h c) = position (h c)"
  using force_update_fields(1) [OF attract_pair_frame [where g = vzero]] .

lemma attract_inner_position: "position (attract_inner p a bs h c) = position (h c)"
  using force_update_fields(1) [OF attract_inner_frame [where g = vzero]] .

lemma push_all_position: "position (push_all p m ids h c) = position (h c)"
  using force_update_fields(1) [OF push_all_frame [where g = vzero]] .

lemma add_attractions_cong:
  "(\<And>b. position (h' b) = position (h b)) \<Longrightarrow>
     add_attractions p h' pos bs acc = add_attractions p h pos bs acc"
  by (simp add: add_attractions_def)

lemma attract_inner_force:
  assumes "a \<notin> set bs" and "distinct bs"
  shows "force (attract_inner p a bs h c) =
           (if c = a then add_attractions p h (position (h a)) bs (force (h a))
            else if c \<in> set bs
              then vadd (force (h c)) (attraction p (position (h c)) (position (h a)))
            else force (h c))"
  using assms
proof (induction bs arbitrary: h)
  case Nil
  then show ?case by (simp add: add_attractions_def)
next
  case (Cons b bs)
  let ?h1 = "attract_pair p a b h"
  have ab: "a \<noteq> b" and a: "a \<notin> set bs" and d: "distinct bs" and b: "b \<notin> set bs"
    using Cons.prems by auto
  have pos: "\<And>x. position (?h1 x) = position (h x)" by (rule attract_pair_position)
  note IH = Cons.IH [OF a d, of ?h1]
  show ?case
  proof (cases "c = a")
    case True
    have "add_attractions p ?h1 (position (h a)) bs (force (?h1 a))
          = add_attractions p h (position (h a)) bs (force (?h1 a))"
      by (rule add_attractions_cong) (rule pos)
    then show ?thesis
      using True IH ab by (simp add: pos attract_pair_force [OF ab] add_attractions_def)
  next
    case False
    then show ?thesis
      using IH ab b by (auto simp: pos attract_pair_force [OF ab])
  qed
qed

lemma attract_outer_force:
  assumes "distinct ids"
  shows "force (attract_outer p ids h c) =
           (if c \<in> set ids
              then add_attractions p h (position (h c)) (filter (\<lambda>b. b \<noteq> c) ids) (force (h c))
            else force (h c))"
  using assms
proof (induction ids arbitrary: h)
  case Nil
  then show ?case by simp
next
  case (Cons a ids)
  let ?h1 = "attract_inner p a ids h"
  have a: "a \<notin> set ids" and d: "distinct ids" using Cons.prems by auto
  have pos: "\<And>x. position (?h1 x) = position (h x)" by (rule attract_inner_position)
  have cong: "\<And>pos' bs acc. add_attractions p ?h1 pos' bs acc = add_attractions p h pos' bs acc"
    by (rule add_attractions_cong) (rule pos)
  note IH = Cons.IH [OF d, of ?h1]
  note inner = attract_inner_force [OF a d, of p h c]
  show ?case
  proof (cases "c = a")
    case True
    have "filter (\<lambda>b. b \<noteq> a) ids = ids" using a by (simp add: filter_id_conv) blast
    then show ?thesis using True IH inner a by simp
  next
    case False
    show ?thesis
    proof (cases "c \<in> set ids")
      case True
      then show ?thesis
        using False IH inner by (simp add: pos cong add_attractions_def)
    next
      case False2: False
      then show ?thesis using False IH inner by simp
    qed
  qed
qed

lemma push_body_force_at:
  "force (push_body p m a h c) =
     (if c = a then vadd (force (h a)) (repulsion p m (position (h a))) else force (h c))"
  by (simp add: push_body_def repulsion_def applyForce_def split: option.splits)

lemma push_body_position: "position (push_body p m a h c) = position (h c)"
  using force_update_fields(1) [OF push_body_frame [where g = vzero]] .

lemma push_all_force:
  assumes "distinct ids"
  shows "force (push_all p m ids h c) =
           (if c \<in> set ids then vadd (force (h c)) (repulsion p m (position (h c)))
            else force (h c))"
  using assms
proof (induction ids arbitrary: h)
  case Nil
  then show ?case by simp
next
  case (Cons a ids)
  then show ?case
    by (auto simp: push_body_force_at push_body_position)
qed

lemma applyForces_net_force:
  assumes "distinct ids" and "c \<in> set ids"
  shows "force (applyForces p m ids h c) =
           add_attractions p h (position (h c)) (filter (\<lambda>b. b \<noteq> c) ids)
             (vadd (force (h c)) (repulsion p m (position (h c))))"
proof -
  have "add_attractions p (push_all p m ids h) (position (h c)) (filter (\<lambda>b. b \<noteq> c) ids)
          (vadd (force (h c)) (repulsion p m (position (h c))))
        = add_attractions p h (position (h c)) (filter (\<lambda>b. b \<noteq> c) ids)
          (vadd (force (h c)) (repulsion p m (position (h c))))"
    by (rule add_attractions_cong) (rule push_all_position)
  then show ?thesis
    using assms
    by (simp add: applyForces_def attract_outer_force push_all_force push_all_position)
qed

lemma attraction_in_range:
  assumes "0 < particleRadius p"
    and "2 * particleRadius p \<le> distance2d posA posB"
    and "distance2d posA posB \<le> attractionRadius p"
  shows "attraction p posA posB =
           vscale (attractionStrength p / (distance2d posA posB)\<^sup>2) (direction2d posA posB)"
  by (simp add: attraction_def attractForce_in_range [OF assms])

lemma attraction_out_of_range:
  assumes "distance2d posA posB < 2 * particleRadius p \<or> attractionRadius p < distance2d posA posB"
  shows "attraction p posA posB = vzero"
  using assms by (auto simp: attraction_def attractForce_def Let_def distance2d_def)

lemma repulsion_in_range:
  assumes "1 < distance2d (pointer_at m) pos" and "distance2d (pointer_at m) pos < pushRadius p"
  shows "repulsion p m pos =
           vscale ((pushRadius p - distance2d (pointer_at m) pos) / pushRadius p * pushStrength p)
             (direction2d (pointer_at m) pos)"
  by (simp add: repulsion_def pushForce_in_range [OF assms])

lemma repulsion_out_of_range:
  assumes "distance2d (pointer_at m) pos \<le> 1 \<or> pushRadius p \<le> distance2d (pointer_at m) pos"
  shows "repulsion p m pos = vzero"
  by (simp add: repulsion_def pushForce_out_of_range [OF assms])

section \<open>The Force Model on the whole Body Store\<close>

lemma vadd_commute: "vadd a b = vadd b a"
  by (simp add: vadd_def)

lemma vadd_assoc: "vadd (vadd a b) c = vadd a (vadd b c)"
  by (simp add: vadd_def)

lemma add_attractions_shift:
  "add_attractions p h pos bs (vadd acc f) = vadd (add_attractions p h pos bs acc) f"
proof (induction bs arbitrary: acc)
  case Nil
  then show ?case by (simp add: add_attractions_def)
next
  case (Cons b bs)
  have "vadd (vadd acc f) (attraction p pos (position (h b)))
        = vadd (vadd acc (attraction p pos (position (h b)))) f"
    by (simp add: vadd_def)
  then show ?case
    using Cons.IH [of "vadd acc (attraction p pos (position (h b)))"]
    by (simp add: add_attractions_def)
qed

lemma add_attractions_Cons:
  "add_attractions p h pos (b # bs) acc =
     add_attractions p h pos bs (vadd acc (attraction p pos (position (h b))))"
  by (simp add: add_attractions_def)

lemma add_attractions_remove1:
  "b \<in> set bs \<Longrightarrow>
     add_attractions p h pos bs acc =
       vadd (add_attractions p h pos (remove1 b bs) acc) (attraction p pos (position (h b)))"
proof (induction bs arbitrary: acc)
  case Nil
  then show ?case by simp
next
  case (Cons c bs)
  show ?case
  proof (cases "c = b")
    case True
    then show ?thesis
      by (simp add: add_attractions_Cons add_attractions_shift)
  next
    case False
    with Cons.prems have "b \<in> set bs" by simp
    from Cons.IH [OF this] False show ?thesis
      by (simp add: add_attractions_Cons)
  qed
qed

lemma applyForces_without:
  assumes "distinct ids" and "a \<in> set ids" and "b \<in> set ids" and "a \<noteq> b"
  shows "force (applyForces p m ids h a) =
           vadd (force (applyForces p m (remove1 b ids) h a))
             (attraction p (position (h a)) (position (h b)))"
proof -
  let ?acc = "vadd (force (h a)) (repulsion p m (position (h a)))"
  have d': "distinct (remove1 b ids)" using assms(1) by simp
  have a': "a \<in> set (remove1 b ids)" using assms by simp
  have b': "b \<in> set (filter (\<lambda>c. c \<noteq> a) ids)" using assms by simp
  have "force (applyForces p m ids h a) =
          add_attractions p h (position (h a)) (filter (\<lambda>c. c \<noteq> a) ids) ?acc"
    by (rule applyForces_net_force [OF assms(1,2)])
  also have "\<dots> = vadd (add_attractions p h (position (h a))
                          (remove1 b (filter (\<lambda>c. c \<noteq> a) ids)) ?acc)
                     (attraction p (position (h a)) (position (h b)))"
    by (rule add_attractions_remove1 [OF b'])
  also have "remove1 b (filter (\<lambda>c. c \<noteq> a) ids) = filter (\<lambda>c. c \<noteq> a) (remove1 b ids)"
    by (simp add: filter_remove1)
  also have "add_attractions p h (position (h a)) (filter (\<lambda>c. c \<noteq> a) (remove1 b ids)) ?acc
             = force (applyForces p m (remove1 b ids) h a)"
    by (rule applyForces_net_force [OF d' a', symmetric])
  finally show ?thesis .
qed

text \<open>
  Claim C1. Let A and B be two particles of the Body Store (a list of distinct bodies) at a
  distance \<open>d\<close> with \<open>2 * particleRadius \<le> d \<le> attractionRadius\<close> (and a positive radius),
  and let \<open>F\<close> be \<open>attractionStrength / d\<^sup>2\<close> times the unit vector from A to B. The force
  that \<^verbatim>\<open>applyForces\<close> leaves on A is the force it would leave on A without B in the Body
  Store, plus \<open>F\<close>; the force it leaves on B is the force it would leave on B without A,
  plus the componentwise negation of \<open>F\<close>. The force on A is what it held before, the
  pointer's repulsion, and one such term for every other particle. The magnitude of \<open>F\<close>
  is \<open>\<bar>attractionStrength\<bar> / d\<^sup>2\<close>; at distance 100 with strength 25000 it is 2.5.
\<close>

theorem applyForces_pair_in_range:
  assumes "distinct ids" and "a \<in> set ids" and "b \<in> set ids" and "a \<noteq> b"
    and "0 < particleRadius p"
    and "d = distance2d (position (h a)) (position (h b))"
    and "2 * particleRadius p \<le> d" and "d \<le> attractionRadius p"
  shows "let F = vscale (attractionStrength p / d\<^sup>2)
                   (direction2d (position (h a)) (position (h b)))
         in force (applyForces p m ids h a)
              = vadd (force (applyForces p m (remove1 b ids) h a)) F
          \<and> force (applyForces p m ids h b)
              = vadd (force (applyForces p m (remove1 a ids) h b)) (vneg F)
          \<and> force (applyForces p m ids h a)
              = add_attractions p h (position (h a)) (filter (\<lambda>c. c \<noteq> a) ids)
                  (vadd (force (h a)) (repulsion p m (position (h a))))
          \<and> attraction p (position (h a)) (position (h b)) = F
          \<and> attraction p (position (h b)) (position (h a)) = vneg F
          \<and> vnorm (direction2d (position (h a)) (position (h b))) = 1
          \<and> vnorm F = \<bar>attractionStrength p\<bar> / d\<^sup>2
          \<and> (d = 100 \<and> attractionStrength p = 25000 \<longrightarrow> vnorm F = 5 / 2)"
proof -
  let ?u = "direction2d (position (h a)) (position (h b))"
  let ?F = "vscale (attractionStrength p / d\<^sup>2) ?u"
  have dpos: "0 < d" using assms by linarith
  have ab: "attraction p (position (h a)) (position (h b)) = ?F"
    using attraction_in_range [of p "position (h a)" "position (h b)"] assms by simp
  have ba: "attraction p (position (h b)) (position (h a)) = vneg ?F"
    unfolding attraction_swap [of p "position (h b)" "position (h a)"] ab ..
  have fa: "force (applyForces p m ids h a)
              = vadd (force (applyForces p m (remove1 b ids) h a)) ?F"
    using applyForces_without [OF assms(1,2,3,4), of p m h] ab by simp
  have fb: "force (applyForces p m ids h b)
              = vadd (force (applyForces p m (remove1 a ids) h b)) (vneg ?F)"
    using applyForces_without [OF assms(1,3,2) assms(4) [symmetric], of p m h] ba by simp
  have net: "force (applyForces p m ids h a)
              = add_attractions p h (position (h a)) (filter (\<lambda>c. c \<noteq> a) ids)
                  (vadd (force (h a)) (repulsion p m (position (h a))))"
    by (rule applyForces_net_force [OF assms(1,2)])
  have u1: "vnorm ?u = 1" using vnorm_direction2d dpos assms(6) by simp
  have n: "vnorm ?F = \<bar>attractionStrength p\<bar> / d\<^sup>2"
    by (simp add: vnorm_vscale u1)
  have s: "d = 100 \<and> attractionStrength p = 25000 \<longrightarrow> vnorm ?F = 5 / 2"
  proof
    assume "d = 100 \<and> attractionStrength p = 25000"
    then have "\<bar>attractionStrength p\<bar> / d\<^sup>2 = 5 / 2" by simp
    then show "vnorm ?F = 5 / 2" using n by simp
  qed
  show ?thesis unfolding Let_def using fa fb net ab ba u1 n s by blast
qed

lemma default_params_fields:
  "numParticles default_params = 1000" "particleRadius default_params = 7"
  "pushRadius default_params = 80" "attractionRadius default_params = 150"
  "attractionStrength default_params = 25000" "pushStrength default_params = 30000"
  by (simp_all add: default_params_def)

lemma three_heap_at:
  "three_heap 0 = particle_at 0 0" "three_heap (Suc 0) = particle_at 100 0"
  "three_heap (Suc (Suc 0)) = particle_at 50 0"
  by (simp_all add: three_heap_def)

lemma particle_at_fields:
  "position (particle_at x y) = Vec3 x y 0" "force (particle_at x y) = Vec3 0 0 0"
  by (simp_all add: particle_at_def new_body_def vzero_def)

lemma scenario_single:
  "force (applyForces default_params (0, 0) [0] (scenario_heap 100) 0) = Vec3 0 0 0"
  "force (applyForces default_params (0, 0) [Suc 0] (scenario_heap 100) (Suc 0)) = Vec3 0 0 0"
  by (simp_all add: applyForces_def push_body_def pushForce_def Let_def scenario_heap_def
      particle_at_def new_body_def vzero_def default_params_def sqrt_square_nonneg)

lemma three_without:
  "force (applyForces default_params (- 1000, 0) [0, Suc (Suc 0)] three_heap 0) = Vec3 10 0 0"
  "force (applyForces default_params (- 1000, 0) [Suc 0, Suc (Suc 0)] three_heap (Suc 0))
     = Vec3 (- 10) 0 0"
  by (simp_all add: applyForces_def push_body_def pushForce_def attract_pair_def
      attractForce_def Let_def three_heap_at particle_at_def new_body_def vzero_def vadd_def
      applyForce_def default_params_def sqrt_square_nonneg)

text \<open>Scenario 1, two particles 100 apart: \<^verbatim>\<open>applyForces\<close> leaves \<open>(2.5, 0, 0)\<close> on one
  and \<open>(-2.5, 0, 0)\<close> on the other. With a third particle half way between them, which
  pulls each of them by 10, it leaves \<open>(12.5, 0, 0)\<close> and \<open>(-12.5, 0, 0)\<close>.\<close>

theorem applyForces_pair_in_range_witness:
  "distinct [0, Suc 0] \<and> 0 < particleRadius default_params
   \<and> 2 * particleRadius default_params \<le> 100 \<and> 100 \<le> attractionRadius default_params
   \<and> distance2d (position (scenario_heap 100 0)) (position (scenario_heap 100 (Suc 0))) = 100
   \<and> force (applyForces default_params (0, 0) [0, Suc 0] (scenario_heap 100) 0) = Vec3 (5 / 2) 0 0
   \<and> force (applyForces default_params (0, 0) [0, Suc 0] (scenario_heap 100) (Suc 0))
       = Vec3 (- (5 / 2)) 0 0
   \<and> distance2d (position (three_heap 0)) (position (three_heap (Suc 0))) = 100
   \<and> force (applyForces default_params (- 1000, 0) [0, Suc 0, Suc (Suc 0)] three_heap 0)
       = Vec3 (25 / 2) 0 0
   \<and> force (applyForces default_params (- 1000, 0) [0, Suc 0, Suc (Suc 0)] three_heap (Suc 0))
       = Vec3 (- (25 / 2)) 0 0"
proof -
  have d: "distance2d (position (scenario_heap 100 0)) (position (scenario_heap 100 (Suc 0))) = 100"
    by (simp add: scenario_distance)
  have u: "direction2d (position (scenario_heap 100 0)) (position (scenario_heap 100 (Suc 0)))
             = Vec3 1 0 0"
    by (simp add: scenario_direction)
  have d3: "distance2d (position (three_heap 0)) (position (three_heap (Suc 0))) = 100"
    by (simp add: three_heap_at particle_at_fields distance2d_def sqrt_square_nonneg)
  have u3: "direction2d (position (three_heap 0)) (position (three_heap (Suc 0))) = Vec3 1 0 0"
    unfolding direction2d_def d3 by (simp add: three_heap_at particle_at_fields)
  have two:
    "force (applyForces default_params (0, 0) [0, Suc 0] (scenario_heap 100) 0) = Vec3 (5 / 2) 0 0"
    "force (applyForces default_params (0, 0) [0, Suc 0] (scenario_heap 100) (Suc 0))
       = Vec3 (- (5 / 2)) 0 0"
    using applyForces_pair_in_range [where ids = "[0, Suc 0]" and a = 0 and b = "Suc 0"
        and p = default_params and d = 100 and h = "scenario_heap 100" and m = "(0, 0)"] d
    by (simp_all add: Let_def u scenario_single default_params_fields vscale_def vadd_def
        vneg_def)
  have three:
    "force (applyForces default_params (- 1000, 0) [0, Suc 0, Suc (Suc 0)] three_heap 0)
       = Vec3 (25 / 2) 0 0"
    "force (applyForces default_params (- 1000, 0) [0, Suc 0, Suc (Suc 0)] three_heap (Suc 0))
       = Vec3 (- (25 / 2)) 0 0"
    using applyForces_pair_in_range [where ids = "[0, Suc 0, Suc (Suc 0)]" and a = 0
        and b = "Suc 0" and p = default_params and d = 100 and h = three_heap
        and m = "(- 1000, 0)"] d3
    by (simp_all add: Let_def u3 three_without default_params_fields vscale_def vadd_def
        vneg_def)
  show ?thesis
    using d d3 two three by (simp add: default_params_fields)
qed

lemma push_all_attract_outer:
  assumes "distinct ids" and "a \<in> set ids"
  shows "force (applyForces p m ids h a) =
           vadd (force (attract_outer p ids h a)) (repulsion p m (position (h a)))"
  by (simp add: applyForces_net_force [OF assms] attract_outer_force [OF assms(1)] assms(2)
      add_attractions_shift)

text \<open>
  Claim C3. Let P be a particle of the Body Store (a list of distinct bodies) at distance
  \<open>d\<close> from the pointer. If \<open>1 < d < pushRadius\<close>, the pointer loop of \<^verbatim>\<open>applyForces\<close>
  adds to P's force the vector \<open>F\<close> of size \<open>(pushRadius - d) / pushRadius * pushStrength\<close>
  times the unit vector from the pointer to P, and the force \<^verbatim>\<open>applyForces\<close> leaves on P
  is what the pair loops alone leave on it, plus \<open>F\<close>; the magnitude of \<open>F\<close> (for a push
  strength that is not negative) is that size, and \<open>0.5 * pushStrength\<close> at distance 40
  with push radius 80. If \<open>d \<le> 1\<close> or \<open>d \<ge> pushRadius\<close>, the pointer loop leaves P's force
  as it is, and \<^verbatim>\<open>applyForces\<close> leaves on P what the pair loops alone leave on it.
\<close>

theorem applyForces_pointer_force:
  assumes "distinct ids" and "a \<in> set ids"
    and "d = distance2d (pointer_at m) (position (h a))"
  shows "(1 < d \<and> d < pushRadius p \<longrightarrow>
            (let F = vscale ((pushRadius p - d) / pushRadius p * pushStrength p)
                       (direction2d (pointer_at m) (position (h a)))
             in force (push_all p m ids h a) = vadd (force (h a)) F
              \<and> force (applyForces p m ids h a) = vadd (force (attract_outer p ids h a)) F
              \<and> force (applyForces p m ids h a)
                  = add_attractions p h (position (h a)) (filter (\<lambda>c. c \<noteq> a) ids)
                      (vadd (force (h a)) F)
              \<and> vnorm (direction2d (pointer_at m) (position (h a))) = 1
              \<and> (0 \<le> pushStrength p \<longrightarrow> vnorm F = (pushRadius p - d) / pushRadius p * pushStrength p)
              \<and> (0 \<le> pushStrength p \<and> pushRadius p = 80 \<and> d = 40 \<longrightarrow> vnorm F = 0.5 * pushStrength p)))
       \<and> (d \<le> 1 \<or> d \<ge> pushRadius p \<longrightarrow>
            force (push_all p m ids h a) = force (h a)
            \<and> force (applyForces p m ids h a) = force (attract_outer p ids h a)
            \<and> force (applyForces p m ids h a)
                = add_attractions p h (position (h a)) (filter (\<lambda>c. c \<noteq> a) ids) (force (h a)))"
proof (intro conjI impI)
  assume r: "1 < d \<and> d < pushRadius p"
  let ?u = "direction2d (pointer_at m) (position (h a))"
  let ?k = "(pushRadius p - d) / pushRadius p * pushStrength p"
  let ?F = "vscale ?k ?u"
  have rp: "repulsion p m (position (h a)) = ?F"
    using repulsion_in_range [of m "position (h a)" p] r assms(3) by simp
  have u1: "vnorm ?u = 1"
    using vnorm_direction2d [of "pointer_at m" "position (h a)"] r assms(3) by simp
  have pa: "force (push_all p m ids h a) = vadd (force (h a)) ?F"
    by (simp add: push_all_force [OF assms(1)] assms(2) rp)
  have ao: "force (applyForces p m ids h a) = vadd (force (attract_outer p ids h a)) ?F"
    by (simp add: push_all_attract_outer [OF assms(1,2)] rp)
  have net: "force (applyForces p m ids h a)
               = add_attractions p h (position (h a)) (filter (\<lambda>c. c \<noteq> a) ids)
                   (vadd (force (h a)) ?F)"
    by (simp add: applyForces_net_force [OF assms(1,2)] rp)
  have sc: "0 < (pushRadius p - d) / pushRadius p" using r by simp
  have n: "0 \<le> pushStrength p \<longrightarrow> vnorm ?F = ?k"
  proof
    assume "0 \<le> pushStrength p"
    then have "0 \<le> ?k" using sc by (intro mult_nonneg_nonneg) simp_all
    then show "vnorm ?F = ?k" by (simp only: vnorm_vscale u1 abs_of_nonneg mult_1_right)
  qed
  have s: "0 \<le> pushStrength p \<and> pushRadius p = 80 \<and> d = 40 \<longrightarrow> vnorm ?F = 0.5 * pushStrength p"
  proof
    assume a: "0 \<le> pushStrength p \<and> pushRadius p = 80 \<and> d = 40"
    then have "vnorm ?F = ?k" using n by blast
    moreover have "?k = 0.5 * pushStrength p" using a by simp
    ultimately show "vnorm ?F = 0.5 * pushStrength p" by simp
  qed
  show "let F = ?F
        in force (push_all p m ids h a) = vadd (force (h a)) F
         \<and> force (applyForces p m ids h a) = vadd (force (attract_outer p ids h a)) F
         \<and> force (applyForces p m ids h a)
             = add_attractions p h (position (h a)) (filter (\<lambda>c. c \<noteq> a) ids)
                 (vadd (force (h a)) F)
         \<and> vnorm ?u = 1
         \<and> (0 \<le> pushStrength p \<longrightarrow> vnorm F = ?k)
         \<and> (0 \<le> pushStrength p \<and> pushRadius p = 80 \<and> d = 40 \<longrightarrow> vnorm F = 0.5 * pushStrength p)"
    unfolding Let_def using pa ao net u1 n s by blast
next
  assume o: "d \<le> 1 \<or> d \<ge> pushRadius p"
  have rp: "repulsion p m (position (h a)) = vzero"
    using repulsion_out_of_range [of m "position (h a)" p] o assms(3) by auto
  show "force (push_all p m ids h a) = force (h a)"
    by (simp add: push_all_force [OF assms(1)] assms(2) rp)
  show "force (applyForces p m ids h a) = force (attract_outer p ids h a)"
    by (simp add: push_all_attract_outer [OF assms(1,2)] rp)
  show "force (applyForces p m ids h a)
          = add_attractions p h (position (h a)) (filter (\<lambda>c. c \<noteq> a) ids) (force (h a))"
    by (simp add: applyForces_net_force [OF assms(1,2)] rp)
qed

lemma scenario_attract_only:
  "0 < d \<Longrightarrow> 14 \<le> d \<Longrightarrow> d \<le> 150 \<Longrightarrow>
     force (attract_outer default_params [0, Suc 0] (scenario_heap d) (Suc 0))
       = Vec3 (- (25000 / (d * d))) 0 0"
  by (simp add: attract_pair_def attractForce_def Let_def scenario_heap_def particle_at_def
      new_body_def vzero_def vadd_def applyForce_def default_params_def sqrt_square_nonneg)

text \<open>Scenario 2: pointer at the origin, push radius 80, a particle 40 away, beside a
  particle at the pointer. The pointer loop gives it \<open>(15000, 0, 0)\<close>, and the pair loops
  add the attraction of the other particle. At distance 80 the pointer adds nothing.\<close>

theorem applyForces_pointer_force_witness:
  "distinct [0, Suc 0]
   \<and> distance2d (pointer_at (0, 0)) (position (scenario_heap 40 (Suc 0))) = 40
   \<and> force (push_all default_params (0, 0) [0, Suc 0] (scenario_heap 40) (Suc 0)) = Vec3 15000 0 0
   \<and> vnorm (Vec3 15000 0 0) = 0.5 * pushStrength default_params
   \<and> force (applyForces default_params (0, 0) [0, Suc 0] (scenario_heap 40) (Suc 0))
       = Vec3 (15000 - 125 / 8) 0 0
   \<and> force (push_all default_params (0, 0) [0, Suc 0] (scenario_heap 80) (Suc 0)) = Vec3 0 0 0
   \<and> force (applyForces default_params (0, 0) [0, Suc 0] (scenario_heap 80) (Suc 0))
       = Vec3 (- (125 / 32)) 0 0"
proof -
  have ao: "force (attract_outer default_params [0, Suc 0] (scenario_heap 40) (Suc 0))
              = Vec3 (- (125 / 8)) 0 0"
    "force (attract_outer default_params [0, Suc 0] (scenario_heap 80) (Suc 0))
              = Vec3 (- (125 / 32)) 0 0"
    using scenario_attract_only [of 40] scenario_attract_only [of 80] by simp_all
  have a: "force (push_all default_params (0, 0) [0, Suc 0] (scenario_heap 40) (Suc 0)) = Vec3 15000 0 0"
    "force (applyForces default_params (0, 0) [0, Suc 0] (scenario_heap 40) (Suc 0))
       = Vec3 (15000 - 125 / 8) 0 0"
    using applyForces_pointer_force [where ids = "[0, Suc 0]" and a = "Suc 0" and d = 40
        and m = "(0, 0)" and h = "scenario_heap 40" and p = default_params]
    by (simp_all add: scenario_pointer_distance scenario_pointer_direction scenario_force
        ao default_params_fields Let_def vscale_def vadd_def
        del: attract_outer.simps push_all.simps)
  have b: "vnorm (Vec3 15000 0 0) = 0.5 * pushStrength default_params"
    by (simp add: vnorm_def default_params_fields sqrt_square_nonneg)
  have c: "force (push_all default_params (0, 0) [0, Suc 0] (scenario_heap 80) (Suc 0)) = Vec3 0 0 0"
    "force (applyForces default_params (0, 0) [0, Suc 0] (scenario_heap 80) (Suc 0))
       = Vec3 (- (125 / 32)) 0 0"
    using applyForces_pointer_force [where ids = "[0, Suc 0]" and a = "Suc 0" and d = 80
        and m = "(0, 0)" and h = "scenario_heap 80" and p = default_params]
    by (simp_all add: scenario_pointer_distance scenario_force ao default_params_fields
        del: attract_outer.simps push_all.simps)
  show ?thesis using a b c by (simp add: scenario_pointer_distance)
qed

section \<open>The Body Store and the renderables\<close>












end
